theory Spec2Isabelle
  imports Complex_Main "HOL-Library.Word" "HOL-Library.AList" "HOL-Library.Multiset"
    "HOL-Library.Log_Nat"
begin

section \<open>The type float64\<close>

text \<open>
  A \<open>float64\<close> is a finite number, an infinity or a NaN. A finite value is kept as the
  real number it stands for; every operation rounds its exact result to the nearest
  number with a significand of 53 bits, a tie to the one whose last bit is even, with
  the step \<open>2^-1074\<close> below \<open>2^-1022\<close> and with an infinity from \<open>2^1024\<close> on. The two
  zeros are one value, as they are for Go's \<open>==\<close> and \<open><\<close>; the payload of a NaN is
  not kept.
\<close>

datatype float64 = Finite real | PosInf | NegInf | NaN

definition pow2 :: "int \<Rightarrow> real" where
  "pow2 k = (if 0 \<le> k then 2 ^ nat k else 1 / 2 ^ nat (- k))"

definition roundHalfEven :: "real \<Rightarrow> int" where
  "roundHalfEven x =
     (let f = \<lfloor>x\<rfloor>; d = x - of_int f
      in if d < 1 / 2 then f else if 1 / 2 < d then f + 1 else if even f then f else f + 1)"

text \<open>
  The binary exponent at which a positive number is rounded: the \<open>e\<close> with
  \<open>2^e \<le> a < 2^(e+1)\<close>, and \<open>-1022\<close> for the numbers below \<open>2^-1022\<close>.
\<close>

definition exponentOf :: "real \<Rightarrow> int" where
  "exponentOf a =
     (let s = a * pow2 1074
      in if s < 1 then - 1022 else max (bitlen \<lfloor>s\<rfloor> - 1 - 1074) (- 1022))"

definition round64 :: "real \<Rightarrow> float64" where
  "round64 x =
     (if x = 0 then Finite 0
      else
        (let a = \<bar>x\<bar>;
             q = pow2 (exponentOf a - 52);
             r = of_int (roundHalfEven (a / q)) * q
         in if pow2 1024 \<le> r then (if 0 < x then PosInf else NegInf)
            else Finite (if 0 < x then r else - r)))"

text \<open>Addition, division and the comparison \<open><\<close> of Go on \<open>float64\<close>.\<close>

fun fadd :: "float64 \<Rightarrow> float64 \<Rightarrow> float64" where
  "fadd NaN y = NaN"
| "fadd x NaN = NaN"
| "fadd PosInf NegInf = NaN"
| "fadd NegInf PosInf = NaN"
| "fadd PosInf y = PosInf"
| "fadd x PosInf = PosInf"
| "fadd NegInf y = NegInf"
| "fadd x NegInf = NegInf"
| "fadd (Finite x) (Finite y) = round64 (x + y)"

fun fdiv :: "float64 \<Rightarrow> float64 \<Rightarrow> float64" where
  "fdiv NaN y = NaN"
| "fdiv x NaN = NaN"
| "fdiv (Finite x) (Finite y) =
     (if y = 0 then (if x = 0 then NaN else if 0 < x then PosInf else NegInf)
      else round64 (x / y))"
| "fdiv (Finite x) y = Finite 0"
| "fdiv PosInf (Finite y) = (if 0 \<le> y then PosInf else NegInf)"
| "fdiv NegInf (Finite y) = (if 0 \<le> y then NegInf else PosInf)"
| "fdiv x y = NaN"

fun flt :: "float64 \<Rightarrow> float64 \<Rightarrow> bool" where
  "flt NaN y = False"
| "flt x NaN = False"
| "flt (Finite x) (Finite y) = (x < y)"
| "flt NegInf NegInf = False"
| "flt NegInf y = True"
| "flt x NegInf = False"
| "flt PosInf y = False"
| "flt x PosInf = True"

text \<open>The conversion \<open>float64(n)\<close> of an integer.\<close>

definition float64OfInt :: "int \<Rightarrow> float64" where
  "float64OfInt n = round64 (of_int n)"

section \<open>The metric data model (pdata) as the processor uses it\<close>

text \<open>
  An attribute value. \<open>AsString\<close> of a string value is the string itself, of a boolean
  \<open>true\<close> or \<open>false\<close>, of the empty value the empty string. The numeric and the
  structured kinds of value are not part of this model.
\<close>

datatype Value = ValueStr string | ValueBool bool | ValueEmpty

fun AsString :: "Value \<Rightarrow> string" where
  "AsString (ValueStr s) = s"
| "AsString (ValueBool b) = (if b then ''true'' else ''false'')"
| "AsString ValueEmpty = []"

text \<open>
  \<open>pcommon.Map\<close> is a slice of key/value pairs: \<open>Get\<close> returns the first pair with
  the key, \<open>PutStr\<close> overwrites that pair in place or appends a new one.
\<close>

type_synonym Map = "(string \<times> Value) list"

definition Get :: "Map \<Rightarrow> string \<Rightarrow> Value option" where
  "Get m k = map_of m k"

definition PutStr :: "Map \<Rightarrow> string \<Rightarrow> string \<Rightarrow> Map" where
  "PutStr m k v = AList.update k (ValueStr v) m"

text \<open>
  A Go \<open>map[string]string\<close> is an association list with one pair per key; an
  assignment \<open>m[k] = v\<close> overwrites the pair of \<open>k\<close> or adds one. Go leaves the order of
  a \<open>range\<close> over a map open; the model visits the pairs in the order of the list.
\<close>

type_synonym StrMap = "(string \<times> string) list"

definition assign :: "StrMap \<Rightarrow> string \<Rightarrow> string \<Rightarrow> StrMap" where
  "assign m k v = AList.update k v m"

text \<open>
  Timestamps are unsigned 64-bit nanoseconds. The value of a number data point is a
  \<open>float64\<close>, a signed 64-bit integer, or absent.
\<close>

type_synonym Timestamp = "64 word"

datatype NumberValue = NumberEmpty | NumberDouble float64 | NumberInt "64 word"

record NumberDataPoint =
  dp_attributes :: Map
  dp_start_timestamp :: Timestamp
  dp_timestamp :: Timestamp
  dp_value :: NumberValue

record HistogramDataPoint =
  hdp_attributes :: Map
  hdp_start_timestamp :: Timestamp
  hdp_timestamp :: Timestamp
  hdp_count :: "64 word"
  hdp_sum :: float64

datatype AggregationTemporality =
  TemporalityUnspecified | TemporalityDelta | TemporalityCumulative

text \<open>
  The shape of a metric with its data points. The processor never reads the payload of
  an exponential histogram or of a summary, so these two carry none here.
\<close>

datatype MetricData =
    MetricEmpty
  | MetricGauge "NumberDataPoint list"
  | MetricSum AggregationTemporality bool "NumberDataPoint list"
  | MetricHistogram AggregationTemporality "HistogramDataPoint list"
  | MetricExponentialHistogram
  | MetricSummary

record Metric =
  m_name :: string
  m_description :: string
  m_unit :: string
  m_data :: MetricData

record Scope =
  scope_name :: string
  scope_version :: string

record ScopeMetrics =
  sm_scope :: Scope
  sm_metrics :: "Metric list"

record ResourceMetrics =
  rm_attributes :: Map
  rm_scope_metrics :: "ScopeMetrics list"

type_synonym Metrics = "ResourceMetrics list"

section \<open>Configuration\<close>

record AggregationRule =
  MetricPattern :: string
  MatchType :: string
  OutputMetricName :: string
  AggregationType :: string
  PreserveOriginalMetrics :: bool
  OutputMetricType :: string

record Config =
  GroupByLabels :: "string list"
  OutputResourceAttributes :: StrMap
  AggregationRules :: "AggregationRule list"

text \<open>
  The regular-expression library is a parameter of the model: \<open>re pattern\<close> is
  \<open>None\<close> when the pattern does not compile, and otherwise the predicate that
  \<open>regexp.MatchString\<close> decides for that pattern. The clock is a parameter too.
\<close>

type_synonym regexp = "string \<Rightarrow> (string \<Rightarrow> bool) option"

type_synonym error = string

section \<open>Matching\<close>

definition matchesPattern :: "regexp \<Rightarrow> string \<Rightarrow> AggregationRule \<Rightarrow> bool" where
  "matchesPattern re metricName rule =
     (if MatchType rule = ''strict'' \<or> MatchType rule = [] then metricName = MetricPattern rule
      else if MatchType rule = ''regex'' then
        (case re (MetricPattern rule) of
           None \<Rightarrow> False
         | Some matched \<Rightarrow> matched metricName)
      else False)"

record MetricWithResource =
  mwr_Metric :: Metric
  mwr_ResourceAttrs :: Map

definition collectMatchingMetrics ::
  "regexp \<Rightarrow> Metrics \<Rightarrow> AggregationRule \<Rightarrow> MetricWithResource list" where
  "collectMatchingMetrics re md rule =
     concat (map (\<lambda>rm.
       concat (map (\<lambda>sm.
         map (\<lambda>metric. \<lparr>mwr_Metric = metric, mwr_ResourceAttrs = rm_attributes rm\<rparr>)
           (filter (\<lambda>metric. matchesPattern re (m_name metric) rule) (sm_metrics sm)))
         (rm_scope_metrics rm))) md)"

section \<open>Group keys\<close>

text \<open>\<open>strings.Join\<close>.\<close>

fun Join :: "string list \<Rightarrow> string \<Rightarrow> string" where
  "Join [] sep = []"
| "Join [x] sep = x"
| "Join (x # y # ys) sep = x @ sep @ Join (y # ys) sep"

text \<open>The loop over the label names, with \<open>keyParts\<close> as its accumulator.\<close>

fun keyPartsLoop :: "Map \<Rightarrow> Map \<Rightarrow> string list \<Rightarrow> string list \<Rightarrow> string list" where
  "keyPartsLoop resourceAttrs dataPointAttrs [] keyParts = keyParts"
| "keyPartsLoop resourceAttrs dataPointAttrs (label # rest) keyParts =
     (case Get dataPointAttrs label of
        Some val \<Rightarrow>
          keyPartsLoop resourceAttrs dataPointAttrs rest (keyParts @ [label @ ''='' @ AsString val])
      | None \<Rightarrow>
          (case Get resourceAttrs label of
             Some val \<Rightarrow>
               keyPartsLoop resourceAttrs dataPointAttrs rest
                 (keyParts @ [label @ ''='' @ AsString val])
           | None \<Rightarrow> keyPartsLoop resourceAttrs dataPointAttrs rest keyParts))"

definition buildGroupKeyFromPresentAttributes :: "Map \<Rightarrow> Map \<Rightarrow> string list \<Rightarrow> string" where
  "buildGroupKeyFromPresentAttributes resourceAttrs dataPointAttrs groupByLabels =
     (if groupByLabels = [] then ''all''
      else
        (let keyParts = keyPartsLoop resourceAttrs dataPointAttrs groupByLabels []
         in if keyParts = [] then ''all'' else Join keyParts ''|''))"

section \<open>Grouping the data points\<close>

text \<open>
  \<open>groups[groupKey] = append(groups[groupKey], x)\<close> on the map of groups, which is kept
  as an association list in the order in which the keys were first seen.
\<close>

fun appendToGroup ::
  "(string \<times> MetricWithResource list) list \<Rightarrow> string \<Rightarrow> MetricWithResource
     \<Rightarrow> (string \<times> MetricWithResource list) list" where
  "appendToGroup [] groupKey x = [(groupKey, [x])]"
| "appendToGroup ((k, xs) # groups) groupKey x =
     (if k = groupKey then (k, xs @ [x]) # groups
      else (k, xs) # appendToGroup groups groupKey x)"

definition groupDataPointsByLabels ::
  "Metric \<Rightarrow> Map \<Rightarrow> string list \<Rightarrow> (string \<times> MetricWithResource list) list
     \<Rightarrow> (string \<times> MetricWithResource list) list" where
  "groupDataPointsByLabels metric resourceAttrs groupByLabels groups =
     (case m_data metric of
        MetricGauge dataPoints \<Rightarrow>
          foldl (\<lambda>gs dp.
              appendToGroup gs
                (buildGroupKeyFromPresentAttributes resourceAttrs (dp_attributes dp) groupByLabels)
                \<lparr>mwr_Metric = metric\<lparr>m_data := MetricGauge [dp]\<rparr>,
                 mwr_ResourceAttrs = resourceAttrs\<rparr>)
            groups dataPoints
      | MetricSum temporality monotonic dataPoints \<Rightarrow>
          foldl (\<lambda>gs dp.
              appendToGroup gs
                (buildGroupKeyFromPresentAttributes resourceAttrs (dp_attributes dp) groupByLabels)
                \<lparr>mwr_Metric = metric\<lparr>m_data := MetricSum temporality monotonic [dp]\<rparr>,
                 mwr_ResourceAttrs = resourceAttrs\<rparr>)
            groups dataPoints
      | MetricHistogram temporality dataPoints \<Rightarrow>
          foldl (\<lambda>gs dp.
              appendToGroup gs
                (buildGroupKeyFromPresentAttributes resourceAttrs (hdp_attributes dp) groupByLabels)
                \<lparr>mwr_Metric = metric\<lparr>m_data := MetricHistogram temporality [dp]\<rparr>,
                 mwr_ResourceAttrs = resourceAttrs\<rparr>)
            groups dataPoints
      | _ \<Rightarrow> groups)"

definition groupMetricsByLabels ::
  "MetricWithResource list \<Rightarrow> string list \<Rightarrow> (string \<times> MetricWithResource list) list" where
  "groupMetricsByLabels metrics groupByLabels =
     foldl (\<lambda>groups metricWithResource.
         groupDataPointsByLabels (mwr_Metric metricWithResource)
           (mwr_ResourceAttrs metricWithResource) groupByLabels groups)
       [] metrics"

section \<open>Aggregated value\<close>

text \<open>
  The loop of \<open>extractValuesFromMetric\<close> over the points of a gauge or a sum: a
  floating-point value as it is, an integer value converted, a point without a value
  skipped.
\<close>

fun numberValues :: "NumberDataPoint list \<Rightarrow> float64 list" where
  "numberValues [] = []"
| "numberValues (dp # dps) =
     (case dp_value dp of
        NumberDouble d \<Rightarrow> d # numberValues dps
      | NumberInt i \<Rightarrow> float64OfInt (sint i) # numberValues dps
      | NumberEmpty \<Rightarrow> numberValues dps)"

definition extractValuesFromMetric :: "Metric \<Rightarrow> float64 list" where
  "extractValuesFromMetric metric =
     (case m_data metric of
        MetricGauge dataPoints \<Rightarrow> numberValues dataPoints
      | MetricSum temporality monotonic dataPoints \<Rightarrow> numberValues dataPoints
      | MetricHistogram temporality dataPoints \<Rightarrow> map hdp_sum dataPoints
      | _ \<Rightarrow> [])"

text \<open>
  The second half of \<open>calculateAggregatedValue\<close>: the check for an empty list of values
  and the switch over the aggregation type.
\<close>

definition aggregateValues :: "float64 list \<Rightarrow> string \<Rightarrow> float64" where
  "aggregateValues values aggregationType =
     (if values = [] then Finite 0
      else if aggregationType = ''sum'' \<or> aggregationType = [] then
        foldl (\<lambda>sum v. fadd sum v) (Finite 0) values
      else if aggregationType = ''mean'' then
        fdiv (foldl (\<lambda>sum v. fadd sum v) (Finite 0) values)
          (float64OfInt (int (length values)))
      else if aggregationType = ''min'' then
        foldl (\<lambda>min v. if flt v min then v else min) (hd values) (tl values)
      else if aggregationType = ''max'' then
        foldl (\<lambda>max v. if flt max v then v else max) (hd values) (tl values)
      else if aggregationType = ''count'' then float64OfInt (int (length values))
      else Finite 0)"

definition calculateAggregatedValue :: "MetricWithResource list \<Rightarrow> string \<Rightarrow> float64" where
  "calculateAggregatedValue metrics aggregationType =
     aggregateValues
       (foldl (\<lambda>values metricWithResource.
           values @ extractValuesFromMetric (mwr_Metric metricWithResource)) [] metrics)
       aggregationType"

section \<open>Timestamps of a group\<close>

text \<open>
  The timestamps that \<open>getLatestTimestamp\<close> reads from one metric. When no point has a
  timestamp other than 0, the function reads the clock, here the parameter \<open>now\<close>.
\<close>

definition pointTimestamps :: "Metric \<Rightarrow> Timestamp list" where
  "pointTimestamps metric =
     (case m_data metric of
        MetricGauge dataPoints \<Rightarrow> map dp_timestamp dataPoints
      | MetricSum temporality monotonic dataPoints \<Rightarrow> map dp_timestamp dataPoints
      | MetricHistogram temporality dataPoints \<Rightarrow> map hdp_timestamp dataPoints
      | _ \<Rightarrow> [])"

definition getLatestTimestamp :: "Timestamp \<Rightarrow> MetricWithResource list \<Rightarrow> Timestamp" where
  "getLatestTimestamp now metrics =
     (let latestTimestamp =
        foldl (\<lambda>latest metricWithResource.
            foldl (\<lambda>l ts. if ts > l then ts else l) latest
              (pointTimestamps (mwr_Metric metricWithResource)))
          0 metrics
      in if latestTimestamp = 0 then now else latestTimestamp)"

text \<open>
  The earliest timestamp reads the point timestamp of a gauge and the start timestamp of
  a sum or a histogram.
\<close>

definition pointStartTimestamps :: "Metric \<Rightarrow> Timestamp list" where
  "pointStartTimestamps metric =
     (case m_data metric of
        MetricGauge dataPoints \<Rightarrow> map dp_timestamp dataPoints
      | MetricSum temporality monotonic dataPoints \<Rightarrow> map dp_start_timestamp dataPoints
      | MetricHistogram temporality dataPoints \<Rightarrow> map hdp_start_timestamp dataPoints
      | _ \<Rightarrow> [])"

definition getEarliestTimestamp :: "Timestamp \<Rightarrow> MetricWithResource list \<Rightarrow> Timestamp" where
  "getEarliestTimestamp now metrics =
     (let earliestTimestamp =
        foldl (\<lambda>earliest metricWithResource.
            foldl (\<lambda>e ts. if ts < e \<and> ts > 0 then ts else e) earliest
              (pointStartTimestamps (mwr_Metric metricWithResource)))
          (- 1) metrics
      in if earliestTimestamp = - 1 then now - 60000000000 else earliestTimestamp)"

section \<open>Metric-name sanitization\<close>

text \<open>The two character classes of \<open>sanitizeMetricName\<close>, on bytes.\<close>

definition isLetter :: "char \<Rightarrow> bool" where
  "isLetter c =
     ((of_char c :: nat) \<in> {of_char CHR ''a'' .. of_char CHR ''z''} \<or>
      (of_char c :: nat) \<in> {of_char CHR ''A'' .. of_char CHR ''Z''})"

definition isDigit :: "char \<Rightarrow> bool" where
  "isDigit c = ((of_char c :: nat) \<in> {of_char CHR ''0'' .. of_char CHR ''9''})"

definition validNameChar :: "char \<Rightarrow> bool" where
  "validNameChar c = (isLetter c \<or> isDigit c \<or> c = CHR ''_'' \<or> c = CHR '':'')"

definition validFirstChar :: "char \<Rightarrow> bool" where
  "validFirstChar c = (isLetter c \<or> c = CHR ''_'' \<or> c = CHR '':'')"

text \<open>
  A Go string is a sequence of bytes, and the regular expression reads it rune by rune:
  a byte below 128 is a rune of its own, a well-formed UTF-8 sequence of two to four
  bytes is one rune, and any other byte is read as a rune of width 1. This is the width
  that \<open>utf8.DecodeRuneInString\<close> returns for the rune at the head of a string.
\<close>

definition byteOf :: "char \<Rightarrow> nat" where
  "byteOf c = of_char c"

definition inRange :: "nat \<Rightarrow> nat \<Rightarrow> char \<Rightarrow> bool" where
  "inRange lo hi c = (lo \<le> byteOf c \<and> byteOf c \<le> hi)"

fun DecodeRuneWidth :: "string \<Rightarrow> nat" where
  "DecodeRuneWidth [] = 0"
| "DecodeRuneWidth (s0 # rest) =
     (let b = byteOf s0
      in if b < 128 then 1
         else if b < 194 \<or> 244 < b then 1
         else
           (let sz = (if b < 224 then 2 else if b < 240 then 3 else 4) :: nat;
                lo = (if b = 224 then 160 else if b = 240 then 144 else 128);
                hi = (if b = 237 then 159 else if b = 244 then 143 else 191)
            in if length (s0 # rest) < sz then 1
               else if \<not> inRange lo hi (rest ! 0) then 1
               else if sz \<le> 2 then 2
               else if \<not> inRange 128 191 (rest ! 1) then 1
               else if sz \<le> 3 then 3
               else if \<not> inRange 128 191 (rest ! 2) then 1
               else 4))"

text \<open>
  \<open>ReplaceAllString(name, "_")\<close> for the pattern \<open>[^a-zA-Z0-9_:]\<close>: a rune of the class
  \<open>[a-zA-Z0-9_:]\<close>, which is one byte, is copied, and every other rune, whatever its
  width, gives one underscore.
\<close>

fun ReplaceAllInvalid :: "string \<Rightarrow> string" where
  "ReplaceAllInvalid [] = []"
| "ReplaceAllInvalid (c # cs) =
     (if validNameChar c then c # ReplaceAllInvalid cs
      else CHR ''_'' # ReplaceAllInvalid (drop (DecodeRuneWidth (c # cs) - 1) cs))"

definition sanitizeMetricName :: "string \<Rightarrow> string" where
  "sanitizeMetricName name =
     (let sanitized = ReplaceAllInvalid name
      in if length sanitized > 0 \<and> \<not> validFirstChar (hd sanitized)
         then ''_'' @ sanitized else sanitized)"

section \<open>Reading a group key back\<close>

text \<open>
  \<open>regexp.Split(s, -1)\<close> for a pattern that is one literal character: the pieces
  between the occurrences of the character, and the one piece \<open>s\<close> when there is none.
\<close>

fun Split :: "char \<Rightarrow> string \<Rightarrow> string list" where
  "Split sep [] = [[]]"
| "Split sep (c # cs) =
     (if c = sep then [] # Split sep cs
      else (case Split sep cs of
              [] \<Rightarrow> [[c]]
            | piece # pieces \<Rightarrow> (c # piece) # pieces))"

text \<open>
  \<open>regexp.Split(s, 2)\<close> for such a pattern: the text before and the text after the
  first occurrence, and the one piece \<open>s\<close> when there is none.
\<close>

definition Split2 :: "char \<Rightarrow> string \<Rightarrow> string list" where
  "Split2 sep s =
     (if sep \<in> set s
      then [takeWhile (\<lambda>c. c \<noteq> sep) s, tl (dropWhile (\<lambda>c. c \<noteq> sep) s)]
      else [s])"

definition extractResourceAttrsFromGroup ::
  "string \<Rightarrow> string list \<Rightarrow> MetricWithResource list \<Rightarrow> StrMap" where
  "extractResourceAttrsFromGroup groupKey groupByLabels metrics =
     (if groupKey = ''all'' \<or> groupByLabels = [] \<or> metrics = [] then []
      else
        (let firstMetricResourceAttrs = mwr_ResourceAttrs (hd metrics)
         in foldl (\<lambda>resourceAttrs part.
                (case Split2 CHR ''='' part of
                   [labelName, labelValue] \<Rightarrow>
                     (case Get firstMetricResourceAttrs labelName of
                        Some v \<Rightarrow> assign resourceAttrs labelName labelValue
                      | None \<Rightarrow> resourceAttrs)
                 | _ \<Rightarrow> resourceAttrs))
              [] (Split CHR ''|'' groupKey)))"

definition setDataPointLabelsFromGroupKey ::
  "Map \<Rightarrow> string \<Rightarrow> string list \<Rightarrow> MetricWithResource list \<Rightarrow> Map" where
  "setDataPointLabelsFromGroupKey attributes groupKey groupByLabels metrics =
     (if groupKey = ''all'' \<or> groupByLabels = [] \<or> metrics = [] then attributes
      else
        (let resourceAttrs = mwr_ResourceAttrs (hd metrics)
         in foldl (\<lambda>attrs part.
                (case Split2 CHR ''='' part of
                   [labelKey, labelValue] \<Rightarrow>
                     (case Get resourceAttrs labelKey of
                        Some v \<Rightarrow> attrs
                      | None \<Rightarrow> PutStr attrs labelKey labelValue)
                 | _ \<Rightarrow> attrs))
              attributes (Split CHR ''|'' groupKey)))"

section \<open>Synthesizing one result for each group\<close>

record ResourceContextResult =
  rcr_Metric :: Metric
  rcr_ResourceAttrs :: StrMap

text \<open>
  The body of the loop of \<open>aggregateMetricsByResourceContext\<close> for one group: the
  result metric with its one data point, and the resource attributes of the group. An
  output type other than \<open>gauge\<close>, \<open>sum\<close> and \<open>histogram\<close> leaves the metric without
  data.
\<close>

definition groupResult ::
  "Timestamp \<Rightarrow> Config \<Rightarrow> AggregationRule \<Rightarrow> string \<Rightarrow> MetricWithResource list
     \<Rightarrow> ResourceContextResult" where
  "groupResult now config rule groupKey groupMetrics =
     (let outputType = (if OutputMetricType rule = [] then ''gauge'' else OutputMetricType rule);
          aggregatedValue = calculateAggregatedValue groupMetrics (AggregationType rule);
          timestamp = getLatestTimestamp now groupMetrics;
          attrs = setDataPointLabelsFromGroupKey [] groupKey (GroupByLabels config) groupMetrics;
          data =
            (if outputType = ''gauge'' then
               MetricGauge
                 [\<lparr>dp_attributes = attrs, dp_start_timestamp = 0, dp_timestamp = timestamp,
                   dp_value = NumberDouble aggregatedValue\<rparr>]
             else if outputType = ''sum'' then
               MetricSum TemporalityCumulative True
                 [\<lparr>dp_attributes = attrs,
                   dp_start_timestamp = getEarliestTimestamp now groupMetrics,
                   dp_timestamp = timestamp, dp_value = NumberDouble aggregatedValue\<rparr>]
             else if outputType = ''histogram'' then
               MetricHistogram TemporalityUnspecified
                 [\<lparr>hdp_attributes = attrs, hdp_start_timestamp = 0, hdp_timestamp = timestamp,
                   hdp_count = of_nat (length groupMetrics), hdp_sum = aggregatedValue\<rparr>]
             else MetricEmpty)
      in \<lparr>rcr_Metric =
            \<lparr>m_name = sanitizeMetricName (OutputMetricName rule),
             m_description =
               ''Aggregated metric using '' @ AggregationType rule @ '' aggregation'',
             m_unit = [], m_data = data\<rparr>,
          rcr_ResourceAttrs =
            extractResourceAttrsFromGroup groupKey (GroupByLabels config) groupMetrics\<rparr>)"

definition aggregateMetricsByResourceContext ::
  "Timestamp \<Rightarrow> Config \<Rightarrow> MetricWithResource list \<Rightarrow> AggregationRule
     \<Rightarrow> ResourceContextResult list" where
  "aggregateMetricsByResourceContext now config metrics rule =
     map (\<lambda>(groupKey, groupMetrics). groupResult now config rule groupKey groupMetrics)
       (groupMetricsByLabels metrics (GroupByLabels config))"

section \<open>Removing the originals\<close>

fun hasAggregatedMarkerAttributes :: "Map \<Rightarrow> StrMap \<Rightarrow> bool" where
  "hasAggregatedMarkerAttributes resourceAttrs [] = True"
| "hasAggregatedMarkerAttributes resourceAttrs ((key, expectedValue) # markerAttrs) =
     (case Get resourceAttrs key of
        None \<Rightarrow> False
      | Some actualValue \<Rightarrow>
          (if AsString actualValue \<noteq> expectedValue then False
           else hasAggregatedMarkerAttributes resourceAttrs markerAttrs))"

definition removeOriginalMetrics ::
  "regexp \<Rightarrow> Config \<Rightarrow> Metrics \<Rightarrow> AggregationRule \<Rightarrow> Metrics" where
  "removeOriginalMetrics re config md rule =
     map (\<lambda>rm.
         if hasAggregatedMarkerAttributes (rm_attributes rm) (OutputResourceAttributes config)
         then rm
         else rm\<lparr>rm_scope_metrics :=
                map (\<lambda>sm. sm\<lparr>sm_metrics :=
                       filter (\<lambda>metric. \<not> matchesPattern re (m_name metric) rule)
                         (sm_metrics sm)\<rparr>)
                  (rm_scope_metrics rm)\<rparr>)
       md"

section \<open>One rule, and all rules\<close>

text \<open>
  The resource that step 3 of \<open>processAggregationRule\<close> appends for one result: the
  resource attributes of the group, then the configured output attributes over them, and
  one scope with the result metric.
\<close>

definition aggregatedResource :: "Config \<Rightarrow> ResourceContextResult \<Rightarrow> ResourceMetrics" where
  "aggregatedResource config result =
     \<lparr>rm_attributes =
        foldl (\<lambda>attrs (key, v). PutStr attrs key v)
          (foldl (\<lambda>attrs (key, v). PutStr attrs key v) [] (rcr_ResourceAttrs result))
          (OutputResourceAttributes config),
      rm_scope_metrics =
        [\<lparr>sm_scope = \<lparr>scope_name = ''metricsaggregator'', scope_version = ''1.0.0''\<rparr>,
          sm_metrics = [rcr_Metric result]\<rparr>]\<rparr>"

definition processAggregationRule ::
  "regexp \<Rightarrow> Timestamp \<Rightarrow> Config \<Rightarrow> Metrics \<Rightarrow> AggregationRule \<Rightarrow> Metrics \<times> error option" where
  "processAggregationRule re now config md rule =
     (let matchingMetrics = collectMatchingMetrics re md rule
      in if length matchingMetrics = 0 then (md, None)
         else
           (let groupedResults = aggregateMetricsByResourceContext now config matchingMetrics rule
            in if length groupedResults = 0 then (md, None)
               else
                 (let md1 = md @ map (aggregatedResource config) groupedResults
                  in if \<not> PreserveOriginalMetrics rule
                     then (removeOriginalMetrics re config md1 rule, None)
                     else (md1, None))))"

text \<open>
  The loop of \<open>processMetrics\<close> over the rules: an error of a rule is logged and the
  loop goes on with the batch as the rule left it.
\<close>

fun processRules ::
  "regexp \<Rightarrow> Timestamp \<Rightarrow> Config \<Rightarrow> AggregationRule list \<Rightarrow> Metrics \<Rightarrow> Metrics" where
  "processRules re now config [] md = md"
| "processRules re now config (rule # rules) md =
     (case processAggregationRule re now config md rule of
        (md1, Some err) \<Rightarrow> processRules re now config rules md1
      | (md1, None) \<Rightarrow> processRules re now config rules md1)"

definition processMetrics ::
  "regexp \<Rightarrow> Timestamp \<Rightarrow> Config \<Rightarrow> Metrics \<Rightarrow> Metrics \<times> error option" where
  "processMetrics re now config md =
     (processRules re now config (AggregationRules config) md, None)"

text \<open>The number of metrics in a batch, as the tests count them.\<close>

definition countMetrics :: "Metrics \<Rightarrow> nat" where
  "countMetrics md =
     sum_list (map (\<lambda>rm. sum_list (map (\<lambda>sm. length (sm_metrics sm)) (rm_scope_metrics rm))) md)"

section \<open>Notions of the specification, and the inputs of its examples\<close>

text \<open>
  The scalars of a group: the values that \<open>extractValuesFromMetric\<close> takes from its
  records, in the order of the records.
\<close>

definition groupValues :: "MetricWithResource list \<Rightarrow> float64 list" where
  "groupValues metrics = concat (map (\<lambda>m. extractValuesFromMetric (mwr_Metric m)) metrics)"

text \<open>A record of one gauge point with a finite floating-point value.\<close>

definition gaugeRecord :: "real \<Rightarrow> MetricWithResource" where
  "gaugeRecord v =
     \<lparr>mwr_Metric =
        \<lparr>m_name = ''m'', m_description = [], m_unit = [],
         m_data = MetricGauge
           [\<lparr>dp_attributes = [], dp_start_timestamp = 0, dp_timestamp = 0,
             dp_value = NumberDouble (Finite v)\<rparr>]\<rparr>,
      mwr_ResourceAttrs = []\<rparr>"

text \<open>A data point with the integer value 7 and one with the floating-point value 10.\<close>

definition intPoint :: NumberDataPoint where
  "intPoint =
     \<lparr>dp_attributes = [], dp_start_timestamp = 0, dp_timestamp = 0, dp_value = NumberInt 7\<rparr>"

definition doublePoint :: NumberDataPoint where
  "doublePoint =
     \<lparr>dp_attributes = [], dp_start_timestamp = 0, dp_timestamp = 0,
      dp_value = NumberDouble (Finite 10)\<rparr>"

text \<open>
  The value of a label for one data point: the point attribute if there is one, and the
  resource attribute otherwise.
\<close>

definition lookupLabel :: "Map \<Rightarrow> Map \<Rightarrow> string \<Rightarrow> Value option" where
  "lookupLabel resourceAttrs pointAttrs label =
     (case Get pointAttrs label of Some v \<Rightarrow> Some v | None \<Rightarrow> Get resourceAttrs label)"

text \<open>
  The \<open>name=value\<close> pairs of the labels that have a value, in the order of the label
  names; a label without a value gives no pair.
\<close>

definition presentPairs :: "Map \<Rightarrow> Map \<Rightarrow> string list \<Rightarrow> string list" where
  "presentPairs resourceAttrs pointAttrs labelNames =
     List.map_filter
       (\<lambda>label. map_option (\<lambda>v. label @ ''='' @ AsString v)
          (lookupLabel resourceAttrs pointAttrs label))
       labelNames"

text \<open>The attributes of the group-key examples in the processor's tests.\<close>

definition exampleResourceAttrs :: Map where
  "exampleResourceAttrs = [(''cluster'', ValueStr ''prod''), (''empty_label'', ValueStr [])]"

definition examplePointAttrs :: Map where
  "examplePointAttrs = [(''service'', ValueStr ''web'')]"

text \<open>A string matches \<open>[A-Za-z_:][A-Za-z0-9_:]*\<close>.\<close>

definition matchesNamePattern :: "string \<Rightarrow> bool" where
  "matchesNamePattern s =
     (case s of [] \<Rightarrow> False | c # cs \<Rightarrow> validFirstChar c \<and> list_all validNameChar cs)"

text \<open>
  The characters of a string: its runes, each with its bytes. A character of the class
  \<open>[A-Za-z0-9_:]\<close> stays and every other character becomes an underscore.
\<close>

fun runes :: "string \<Rightarrow> string list" where
  "runes [] = []"
| "runes (c # cs) =
     (c # take (DecodeRuneWidth (c # cs) - 1) cs) # runes (drop (DecodeRuneWidth (c # cs) - 1) cs)"

definition replaceRune :: "string \<Rightarrow> string" where
  "replaceRune r = (case r of [c] \<Rightarrow> (if validNameChar c then [c] else ''_'') | _ \<Rightarrow> ''_'')"

definition replaceInvalid :: "string \<Rightarrow> string" where
  "replaceInvalid name = concat (map replaceRune (runes name))"

text \<open>The bytes of \<open>caf\<close> followed by the two bytes of an e with an acute accent.\<close>

definition cafeName :: string where
  "cafeName = ''caf'' @ [CHR 0xC3, CHR 0xA9]"

text \<open>A metric whose shape is none of the three that the processor takes apart.\<close>

definition unsupportedShape :: "Metric \<Rightarrow> bool" where
  "unsupportedShape metric =
     (case m_data metric of
        MetricGauge dataPoints \<Rightarrow> False
      | MetricSum temporality monotonic dataPoints \<Rightarrow> False
      | MetricHistogram temporality dataPoints \<Rightarrow> False
      | _ \<Rightarrow> True)"

text \<open>
  The batches, rules and configurations of the processor's tests: two resources with one
  matching gauge each (values 100 and 200), and three resources with gauge points for
  two values of the attribute \<open>pathKey\<close>. Their points carry no timestamp.
\<close>

definition gaugeMetric :: "string \<Rightarrow> Map \<Rightarrow> real \<Rightarrow> Metric" where
  "gaugeMetric name attrs v =
     \<lparr>m_name = name, m_description = [], m_unit = [],
      m_data = MetricGauge
        [\<lparr>dp_attributes = attrs, dp_start_timestamp = 0, dp_timestamp = 0,
          dp_value = NumberDouble (Finite v)\<rparr>]\<rparr>"

definition resourceOf :: "Map \<Rightarrow> Metric list \<Rightarrow> ResourceMetrics" where
  "resourceOf attrs metrics =
     \<lparr>rm_attributes = attrs,
      rm_scope_metrics = [\<lparr>sm_scope = \<lparr>scope_name = [], scope_version = []\<rparr>, sm_metrics = metrics\<rparr>]\<rparr>"

definition preserveTestRule :: "bool \<Rightarrow> AggregationRule" where
  "preserveTestRule preserve =
     \<lparr>MetricPattern = ''test_metric'', MatchType = ''strict'',
      OutputMetricName = ''aggregated_metric'', AggregationType = ''sum'',
      PreserveOriginalMetrics = preserve, OutputMetricType = []\<rparr>"

definition preserveTestConfig :: "bool \<Rightarrow> Config" where
  "preserveTestConfig preserve =
     \<lparr>GroupByLabels = [], OutputResourceAttributes = [(''aggregated'', ''true'')],
      AggregationRules = [preserveTestRule preserve]\<rparr>"

definition preserveTestBatch :: Metrics where
  "preserveTestBatch =
     [resourceOf [(''instance'', ValueStr ''instance-1'')] [gaugeMetric ''test_metric'' [] 100],
      resourceOf [(''instance'', ValueStr ''instance-2'')] [gaugeMetric ''test_metric'' [] 200]]"

definition pathKeyRule :: AggregationRule where
  "pathKeyRule =
     \<lparr>MetricPattern = ''throughput'', MatchType = ''strict'',
      OutputMetricName = ''cluster_throughput'', AggregationType = ''sum'',
      PreserveOriginalMetrics = False, OutputMetricType = []\<rparr>"

definition pathKeyConfig :: Config where
  "pathKeyConfig =
     \<lparr>GroupByLabels = [''pathKey''], OutputResourceAttributes = [(''aggregated'', ''true'')],
      AggregationRules = [pathKeyRule]\<rparr>"

definition pathKeyBatch :: Metrics where
  "pathKeyBatch =
     [resourceOf [(''pod_name'', ValueStr ''pod-0'')]
        [gaugeMetric ''throughput'' [(''pathKey'', ValueStr ''/v1'')] 10,
         gaugeMetric ''throughput'' [(''pathKey'', ValueStr ''/v2'')] 11],
      resourceOf [(''pod_name'', ValueStr ''pod-1'')]
        [gaugeMetric ''throughput'' [(''pathKey'', ValueStr ''/v1'')] 11,
         gaugeMetric ''throughput'' [(''pathKey'', ValueStr ''/v2'')] 12],
      resourceOf [(''pod_name'', ValueStr ''pod-2'')]
        [gaugeMetric ''throughput'' [(''pathKey'', ValueStr ''/v1'')] 12,
         gaugeMetric ''throughput'' [(''pathKey'', ValueStr ''/v2'')] 13]]"

definition synthesizedGauge :: "Timestamp \<Rightarrow> string \<Rightarrow> real \<Rightarrow> ResourceMetrics" where
  "synthesizedGauge now pathKey v =
     \<lparr>rm_attributes = [(''aggregated'', ValueStr ''true'')],
      rm_scope_metrics =
        [\<lparr>sm_scope = \<lparr>scope_name = ''metricsaggregator'', scope_version = ''1.0.0''\<rparr>,
          sm_metrics =
            [\<lparr>m_name = ''cluster_throughput'',
              m_description = ''Aggregated metric using sum aggregation'', m_unit = [],
              m_data = MetricGauge
                [\<lparr>dp_attributes = [(''pathKey'', ValueStr pathKey)], dp_start_timestamp = 0,
                  dp_timestamp = now, dp_value = NumberDouble (Finite v)\<rparr>]\<rparr>]\<rparr>]\<rparr>"

text \<open>
  A rule whose pattern is the name of the metric that \<open>preserveTestRule\<close> synthesizes,
  a rule with a pattern that does not compile, a regular-expression library that rejects
  that pattern, and a batch whose one matching metric is a summary.
\<close>

definition laterRule :: AggregationRule where
  "laterRule =
     \<lparr>MetricPattern = ''aggregated_metric'', MatchType = ''strict'',
      OutputMetricName = ''second'', AggregationType = ''sum'',
      PreserveOriginalMetrics = False, OutputMetricType = []\<rparr>"

definition invalidRegexRule :: AggregationRule where
  "invalidRegexRule =
     \<lparr>MetricPattern = ''[invalid'', MatchType = ''regex'',
      OutputMetricName = ''never'', AggregationType = ''sum'',
      PreserveOriginalMetrics = False, OutputMetricType = []\<rparr>"

definition exampleRegexp :: regexp where
  "exampleRegexp pattern = (if pattern = ''[invalid'' then None else Some (\<lambda>s. True))"

definition summaryBatch :: Metrics where
  "summaryBatch =
     [resourceOf [(''instance'', ValueStr ''instance-1'')]
        [\<lparr>m_name = ''test_metric'', m_description = [], m_unit = [],
          m_data = MetricSummary\<rparr>]]"

section \<open>The accumulator's cleanup by labels\<close>

text \<open>
  Modelled from the spec: the accumulator of the exporter (its entries, the extraction of
  an entry's labels and its \<open>CleanByLabels\<close>) is not among the sources; only the
  exporter's method that forwards to it and the tests that call it are. An entry is kept
  with the parts of its identity: the metric name, the resource attributes and the point
  attributes. The store holds one entry for each identity.
\<close>

record accumulatedValue =
  av_name :: string
  av_resourceAttrs :: Map
  av_pointAttrs :: Map

type_synonym accumulator = "(string \<times> accumulatedValue) list"

text \<open>
  Modelled from the spec: the value of a filter key for an entry, looked up in the union
  of the entry's resource attributes and point attributes, the point attribute winning
  when both have the key.
\<close>

definition resolvedLabel :: "accumulatedValue \<Rightarrow> string \<Rightarrow> string option" where
  "resolvedLabel entry key =
     (case Get (av_pointAttrs entry) key of
        Some v \<Rightarrow> Some (AsString v)
      | None \<Rightarrow> map_option AsString (Get (av_resourceAttrs entry) key))"

text \<open>Modelled from the spec: every key/value pair of the filter matches the entry.\<close>

fun matchesFilters :: "StrMap \<Rightarrow> accumulatedValue \<Rightarrow> bool" where
  "matchesFilters [] entry = True"
| "matchesFilters ((key, v) # filters) entry =
     (resolvedLabel entry key = Some v \<and> matchesFilters filters entry)"

text \<open>
  Modelled from the spec: \<open>CleanByLabels\<close> walks a snapshot of the store, deletes the
  identity of each entry that matches the filter and counts the deletions; it returns the
  store that is left and the count. Calls are taken one at a time.
\<close>

definition CleanByLabels :: "StrMap \<Rightarrow> accumulator \<Rightarrow> accumulator \<times> nat" where
  "CleanByLabels filters acc =
     foldl (\<lambda>(store, deleted) (identity, entry).
         if matchesFilters filters entry then (AList.delete identity store, deleted + 1)
         else (store, deleted))
       (acc, 0) acc"

text \<open>The three entries of the cleanup test, with two of their resource attributes.\<close>

definition cleanupEntry :: "string \<Rightarrow> string \<Rightarrow> string \<Rightarrow> string \<Rightarrow> string \<times> accumulatedValue" where
  "cleanupEntry name service environment method =
     (name,
      \<lparr>av_name = name,
       av_resourceAttrs =
         [(''service.name'', ValueStr service), (''deployment.environment'', ValueStr environment)],
       av_pointAttrs = [(''method'', ValueStr method)]\<rparr>)"

definition cleanupStore :: accumulator where
  "cleanupStore =
     [cleanupEntry ''metric1'' ''service-a'' ''staging'' ''GET'',
      cleanupEntry ''metric2'' ''service-b'' ''production'' ''POST'',
      cleanupEntry ''metric3'' ''service-c'' ''staging'' ''PUT'']"

section \<open>The pairs of a group key and where they are placed\<close>

text \<open>
  The labels of a group key with their values: for each label name that has a value, in
  the order of the names, the name and the value as a string.
\<close>

definition groupPairs :: "Map \<Rightarrow> Map \<Rightarrow> string list \<Rightarrow> (string \<times> string) list" where
  "groupPairs resourceAttrs pointAttrs labelNames =
     List.map_filter
       (\<lambda>label. map_option (\<lambda>v. (label, AsString v))
          (lookupLabel resourceAttrs pointAttrs label))
       labelNames"

text \<open>
  Records, a configuration and a batch with the label \<open>a\<close> of value \<open>x|y\<close>, once as a
  point attribute and once as a resource attribute.
\<close>

definition barRecord :: MetricWithResource where
  "barRecord =
     \<lparr>mwr_Metric = gaugeMetric ''m'' [(''a'', ValueStr ''x|y'')] 1, mwr_ResourceAttrs = []\<rparr>"

definition barResourceRecord :: MetricWithResource where
  "barResourceRecord =
     \<lparr>mwr_Metric = gaugeMetric ''m'' [] 1,
      mwr_ResourceAttrs = [(''a'', ValueStr ''x|y'')]\<rparr>"

definition barConfig :: Config where
  "barConfig =
     \<lparr>GroupByLabels = [''a''], OutputResourceAttributes = [(''aggregated'', ''true'')],
      AggregationRules = [pathKeyRule]\<rparr>"

definition barBatch :: Metrics where
  "barBatch = [resourceOf [] [gaugeMetric ''throughput'' [(''a'', ValueStr ''x|y'')] 1]]"

text \<open>A record with the attributes of the group-key examples.\<close>

definition exampleRecord :: MetricWithResource where
  "exampleRecord =
     \<lparr>mwr_Metric = gaugeMetric ''m'' examplePointAttrs 1,
      mwr_ResourceAttrs = exampleResourceAttrs\<rparr>"

section \<open>Rounding to float64\<close>

lemma pow2_pos: "0 < pow2 k"
  by (simp add: pow2_def)

lemma pow2_add: "pow2 (j + k) = pow2 j * pow2 k"
proof -
  have "pow2 k = 2 powi k" for k
    by (simp add: pow2_def power_int_def field_simps)
  then show ?thesis by (simp add: power_int_add)
qed

lemma pow2_nat: "pow2 (int n) = 2 ^ n"
  by (simp add: pow2_def)

lemma pow2_mono: "j \<le> k \<Longrightarrow> pow2 j \<le> pow2 k"
proof -
  assume "j \<le> k"
  then obtain n where k: "k = j + int n" by (metis zle_iff_zadd)
  have "(1::real) \<le> 2 ^ n" by simp
  then show ?thesis using pow2_pos [of j] by (simp add: k pow2_add pow2_nat)
qed

lemma exponentOf_eq:
  assumes "- 1022 \<le> k" "pow2 k \<le> a" "a < pow2 (k + 1)"
  shows "exponentOf a = k"
proof -
  define m where "m = nat (k + 1074)"
  have mk: "int m = k + 1074" using assms(1) by (simp add: m_def)
  let ?s = "a * pow2 1074"
  have c: "0 < pow2 1074" by (rule pow2_pos)
  have lo: "2 ^ m \<le> ?s"
  proof -
    have "pow2 (int m) = pow2 k * pow2 1074" by (simp only: mk pow2_add)
    also have "\<dots> \<le> ?s" using assms(2) c by simp
    finally show ?thesis by (simp only: pow2_nat)
  qed
  have hi: "?s < 2 ^ (m + 1)"
  proof -
    have "?s < pow2 (k + 1) * pow2 1074" using assms(3) c by simp
    also have "\<dots> = pow2 (k + 1 + 1074)" by (simp only: pow2_add)
    also have "k + 1 + 1074 = int (m + 1)" using mk by simp
    finally show ?thesis by (simp only: pow2_nat)
  qed
  have s1: "\<not> ?s < 1"
  proof -
    have "(1::real) \<le> 2 ^ m" by simp
    then show ?thesis using lo by linarith
  qed
  let ?n = "\<lfloor>?s\<rfloor>"
  have nlo: "2 ^ m \<le> ?n"
  proof -
    have "of_int (2 ^ m) \<le> ?s" using lo by simp
    then show ?thesis by (simp only: le_floor_iff)
  qed
  have nhi: "?n < 2 ^ (m + 1)"
  proof -
    have "?s < of_int (2 ^ (m + 1))" using hi by simp
    then show ?thesis by (simp only: floor_less_iff)
  qed
  have "(0::int) < 2 ^ m" by simp
  then have npos: "0 < ?n" using nlo by linarith
  have b: "bitlen ?n = int m + 1"
  proof -
    from bitlen_bounds [OF npos]
    have b1: "2 ^ nat (bitlen ?n - 1) \<le> ?n" and b2: "?n < 2 ^ nat (bitlen ?n)" by auto
    have "(2::int) ^ m < 2 ^ nat (bitlen ?n)" using nlo b2 by linarith
    then have 1: "m < nat (bitlen ?n)" by simp
    have "(2::int) ^ nat (bitlen ?n - 1) < 2 ^ (m + 1)" using nhi b1 by linarith
    then have 2: "nat (bitlen ?n - 1) < m + 1"
      by (rule power_less_imp_less_exp [rotated]) simp
    show ?thesis using 1 2 by linarith
  qed
  show ?thesis
    unfolding exponentOf_def Let_def using s1 b mk assms(1) by simp
qed

lemma roundHalfEven_int: "roundHalfEven (of_int j) = j"
  by (simp add: roundHalfEven_def)

lemma round64_eval:
  assumes "x \<noteq> 0" "- 1022 \<le> k" "pow2 k \<le> \<bar>x\<bar>" "\<bar>x\<bar> < pow2 (k + 1)"
  shows "round64 x =
     (let q = pow2 (k - 52); r = of_int (roundHalfEven (\<bar>x\<bar> / q)) * q
      in if pow2 1024 \<le> r then (if 0 < x then PosInf else NegInf)
         else Finite (if 0 < x then r else - r))"
proof -
  have e: "exponentOf \<bar>x\<bar> = k"
    using assms(2,3,4) by (rule exponentOf_eq)
  show ?thesis
    unfolding round64_def Let_def e using assms(1) by (simp only: if_False)
qed

lemma roundHalfEven_multiple:
  "0 < q \<Longrightarrow> a = of_int j * q \<Longrightarrow> roundHalfEven (a / q) = j"
  by (simp add: roundHalfEven_int)

lemma pow2_inverse: "pow2 (- k) * pow2 k = 1"
  using pow2_add [of "- k" k] by (simp add: pow2_def)

lemma round64_int:
  assumes "\<bar>m\<bar> \<le> 2 ^ 53"
  shows "round64 (of_int m) = Finite (of_int m)"
proof (cases "m = 0")
  case True
  then show ?thesis by (simp add: round64_def)
next
  case False
  define n where "n = \<bar>m\<bar>"
  define k where "k = bitlen n - 1"
  have npos: "0 < n" using False by (simp add: n_def)
  from bitlen_bounds [OF npos]
  have b1: "2 ^ nat k \<le> n" and b2: "n < 2 ^ nat (bitlen n)" by (auto simp: k_def)
  have bl: "1 \<le> bitlen n" using npos by (auto simp: bitlen_alt_def)
  then have k0: "0 \<le> k" by (simp add: k_def)
  have k1: "nat (bitlen n) = nat k + 1" using bl by (simp add: k_def)
  have "(2::int) ^ nat k \<le> 2 ^ 53" using b1 assms by (simp add: n_def)
  then have "nat k \<le> 53" by (rule power_le_imp_le_exp [rotated]) simp
  then have k53: "k \<le> 53" using k0 by linarith
  let ?x = "real_of_int m"
  have ax: "\<bar>?x\<bar> = of_int n" by (simp add: n_def)
  have lo: "pow2 k \<le> \<bar>?x\<bar>"
  proof -
    have "pow2 (int (nat k)) \<le> of_int n"
      unfolding pow2_nat using b1 by (metis of_int_le_iff of_int_numeral of_int_power)
    then show ?thesis using k0 by (simp add: ax)
  qed
  have hi: "\<bar>?x\<bar> < pow2 (k + 1)"
  proof -
    have "of_int n < pow2 (int (nat k + 1))"
      unfolding pow2_nat using b2 k1 by (metis of_int_less_iff of_int_numeral of_int_power)
    moreover have "int (nat k + 1) = k + 1" using k0 by simp
    ultimately show ?thesis by (simp only: ax)
  qed
  have x0: "?x \<noteq> 0" using False by simp
  have "\<exists>j. \<bar>?x\<bar> = of_int j * pow2 (k - 52)"
  proof (cases "k \<le> 52")
    case True
    define d where "d = nat (52 - k)"
    have "pow2 (k - 52) * 2 ^ d = 1"
    proof -
      have "int d = - (k - 52)" using True by (simp add: d_def)
      then have "pow2 (k - 52) * pow2 (int d) = 1"
        using pow2_inverse [of "- (k - 52)"] by simp
      then show ?thesis by (simp only: pow2_nat)
    qed
    then have "of_int (n * 2 ^ d) * pow2 (k - 52) = of_int n"
      by (simp add: mult.assoc mult.commute)
    then show ?thesis using ax by metis
  next
    case False
    then have k: "k = 53" using k53 by simp
    have "2 ^ 53 \<le> n" using b1 k by simp
    then have "n = 2 ^ 53" using assms by (simp add: n_def)
    then have "\<bar>?x\<bar> = of_int (2 ^ 52) * pow2 (k - 52)"
      by (simp add: ax k pow2_def)
    then show ?thesis by blast
  qed
  then obtain j where j: "\<bar>?x\<bar> = of_int j * pow2 (k - 52)" by blast
  have r: "of_int (roundHalfEven (\<bar>?x\<bar> / pow2 (k - 52))) * pow2 (k - 52) = \<bar>?x\<bar>"
    using roundHalfEven_multiple [OF pow2_pos j] j by simp
  have small: "\<not> pow2 1024 \<le> \<bar>?x\<bar>"
  proof -
    have "\<bar>?x\<bar> \<le> 2 ^ 53" using assms ax n_def
      by (metis of_int_le_iff of_int_numeral of_int_power)
    moreover have "(2::real) ^ 53 < pow2 (int 54)" unfolding pow2_nat by simp
    moreover have "pow2 (int 54) \<le> pow2 1024" by (rule pow2_mono) simp
    ultimately show ?thesis by linarith
  qed
  have "- 1022 \<le> k" using k0 by simp
  from round64_eval [OF x0 this lo hi]
  show ?thesis
    unfolding Let_def r using small by (simp add: abs_if)
qed

lemma round64_numeral:
  "numeral w \<le> (2::int) ^ 53 \<Longrightarrow> round64 (numeral w) = Finite (numeral w)"
  using round64_int [of "numeral w"] by simp

lemma round64_neg_numeral:
  "numeral w \<le> (2::int) ^ 53 \<Longrightarrow> round64 (- numeral w) = Finite (- numeral w)"
  using round64_int [of "- numeral w"] by simp

lemma round64_zero: "round64 0 = Finite 0"
  by (simp add: round64_def)

lemma round64_one: "round64 1 = Finite 1"
  using round64_int [of 1] by simp

lemma float64OfInt_exact: "\<bar>m\<bar> \<le> 2 ^ 53 \<Longrightarrow> float64OfInt m = Finite (of_int m)"
  by (simp add: float64OfInt_def round64_int)

lemmas float_simps =
  round64_numeral round64_neg_numeral round64_zero round64_one float64OfInt_def

lemma round64_mean_example: "round64 (25 / 3) = Finite (4691249611844267 / 562949953421312)"
  by (subst round64_eval [where k = 3]) (simp_all add: pow2_def roundHalfEven_def Let_def)

lemma round64_tie_example: "round64 10000000000000001 = Finite 10000000000000000"
  by (subst round64_eval [where k = 53]) (simp_all add: pow2_def roundHalfEven_def Let_def)

lemma round64_large_example: "round64 10000000000000000 = Finite 10000000000000000"
  by (subst round64_eval [where k = 53]) (simp_all add: pow2_def roundHalfEven_def Let_def)

lemma exponentOf_subnormal:
  assumes "0 < a" "a < pow2 (- 1022)"
  shows "exponentOf a = - 1022"
proof (cases "a * pow2 1074 < 1")
  case True
  then show ?thesis by (simp add: exponentOf_def)
next
  case False
  let ?s = "a * pow2 1074"
  let ?n = "\<lfloor>?s\<rfloor>"
  have c: "0 < pow2 1074" by (rule pow2_pos)
  have "?s < pow2 (- 1022) * pow2 1074" using assms(2) c by simp
  also have "\<dots> = pow2 (int 52)" by (simp add: pow2_add [symmetric])
  finally have hi: "?s < 2 ^ 52" by (simp only: pow2_nat)
  have npos: "0 < ?n" using False by simp
  have "?s < of_int (2 ^ 52)" using hi by simp
  then have nhi: "?n < 2 ^ 52" by (simp only: floor_less_iff)
  from bitlen_bounds [OF npos] have "2 ^ nat (bitlen ?n - 1) \<le> ?n" by simp
  then have "(2::int) ^ nat (bitlen ?n - 1) < 2 ^ 52" using nhi by linarith
  then have "nat (bitlen ?n - 1) < 52" by (rule power_less_imp_less_exp [rotated]) simp
  then have "bitlen ?n - 1 - 1074 \<le> - 1022" by linarith
  then show ?thesis using False by (simp add: exponentOf_def Let_def)
qed

lemma round64_subnormal_eval:
  assumes "x \<noteq> 0" "\<bar>x\<bar> < pow2 (- 1022)"
  shows "round64 x =
     (let q = pow2 (- 1074); r = of_int (roundHalfEven (\<bar>x\<bar> / q)) * q
      in if pow2 1024 \<le> r then (if 0 < x then PosInf else NegInf)
         else Finite (if 0 < x then r else - r))"
proof -
  have e: "exponentOf \<bar>x\<bar> = - 1022"
    using assms by (intro exponentOf_subnormal) simp_all
  show ?thesis
    unfolding round64_def Let_def e using assms(1) by (simp only: if_False) simp
qed

text \<open>
  The rounding on known cases: 0.1 + 0.2, the integer \<open>2^53 + 1\<close>, the largest finite
  number and the tie above it, and two ties among the smallest numbers.
\<close>

lemma fadd_tenth_example:
  "fadd (Finite (3602879701896397 / 2 ^ 55)) (Finite (3602879701896397 / 2 ^ 54)) =
     Finite (5404319552844596 / 2 ^ 54)"
proof -
  have "round64 (3602879701896397 / 2 ^ 55 + 3602879701896397 / 2 ^ 54) =
     Finite (5404319552844596 / 2 ^ 54)"
    by (subst round64_eval [where k = "- 2"]) (simp_all add: pow2_def roundHalfEven_def Let_def)
  then show ?thesis by simp
qed

lemma float64OfInt_rounds_example: "float64OfInt 9007199254740993 = Finite 9007199254740992"
  unfolding float64OfInt_def
  by (subst round64_eval [where k = 53]) (simp_all add: pow2_def roundHalfEven_def Let_def)

lemma round64_overflow_example: "round64 (2 ^ 1024 - 2 ^ 970) = PosInf"
  by (subst round64_eval [where k = 1023]) (simp_all add: pow2_def roundHalfEven_def Let_def)

lemma round64_largest_example: "round64 (2 ^ 1024 - 2 ^ 971) = Finite (2 ^ 1024 - 2 ^ 971)"
  by (subst round64_eval [where k = 1023]) (simp_all add: pow2_def roundHalfEven_def Let_def)

lemma round64_underflow_example: "round64 (1 / 2 ^ 1075) = Finite 0"
  by (subst round64_subnormal_eval) (simp_all add: pow2_def roundHalfEven_def Let_def)

lemma round64_subnormal_example: "round64 (3 / 2 ^ 1075) = Finite (2 / 2 ^ 1074)"
  by (subst round64_subnormal_eval) (simp_all add: pow2_def roundHalfEven_def Let_def)

lemma flt_trans: "flt x y \<Longrightarrow> flt y z \<Longrightarrow> flt x z"
  by (cases x; cases y; cases z) auto

lemma flt_neg_trans:
  "x \<noteq> NaN \<Longrightarrow> y \<noteq> NaN \<Longrightarrow> z \<noteq> NaN \<Longrightarrow> flt x y \<Longrightarrow> \<not> flt z y \<Longrightarrow> flt x z"
  by (cases x; cases y; cases z) auto

lemma flt_irrefl: "\<not> flt x x"
  by (cases x) auto

section \<open>The aggregated value of a group\<close>

lemma foldl_append_values:
  "foldl (\<lambda>values m. values @ f m) acc ms = acc @ concat (map f ms)"
  by (induction ms arbitrary: acc) simp_all

lemma calculateAggregatedValue_groupValues:
  "calculateAggregatedValue ms t = aggregateValues (groupValues ms) t"
  by (simp add: calculateAggregatedValue_def groupValues_def foldl_append_values)

lemma foldl_fadd_ints:
  "\<bar>a\<bar> + sum_list (map abs ks) \<le> 2 ^ 53 \<Longrightarrow>
   foldl (\<lambda>sum v. fadd sum v) (Finite (of_int a)) (map (\<lambda>k. Finite (of_int k)) ks) =
     Finite (of_int (a + sum_list ks))"
proof (induction ks arbitrary: a)
  case Nil
  show ?case by simp
next
  case (Cons k ks)
  have S: "0 \<le> sum_list (map abs ks)"
    by (induction ks) simp_all
  have P: "\<bar>a\<bar> + (\<bar>k\<bar> + sum_list (map abs ks)) \<le> 2 ^ 53"
    using Cons.prems by simp
  have "\<bar>a + k\<bar> \<le> 2 ^ 53"
    using S P by linarith
  then have step: "fadd (Finite (of_int a)) (Finite (of_int k)) = Finite (of_int (a + k))"
    using round64_int [of "a + k"] by simp
  have "\<bar>a + k\<bar> + sum_list (map abs ks) \<le> 2 ^ 53"
    using P by linarith
  then show ?case
    using Cons.IH [of "a + k"] by (simp add: step add.assoc del: fadd.simps)
qed

lemma foldl_min_least:
  "NaN \<notin> set (a # vs) \<Longrightarrow>
   foldl (\<lambda>min v. if flt v min then v else min) a vs \<in> set (a # vs) \<and>
   (\<forall>v \<in> set (a # vs). \<not> flt v (foldl (\<lambda>min v. if flt v min then v else min) a vs))"
proof (induction vs arbitrary: a)
  case Nil
  show ?case by (simp add: flt_irrefl)
next
  case (Cons w vs)
  let ?a = "if flt w a then w else a"
  let ?r = "foldl (\<lambda>min v. if flt v min then v else min) ?a vs"
  have nn: "NaN \<notin> set (?a # vs)" "a \<noteq> NaN" "w \<noteq> NaN"
    using Cons.prems by auto
  from Cons.IH [OF nn(1)]
  have mem: "?r \<in> set (?a # vs)" and low: "\<forall>v \<in> set (?a # vs). \<not> flt v ?r"
    by auto
  have rn: "?r \<noteq> NaN" using mem nn(1) by metis
  have la: "\<not> flt ?a ?r" using low by simp
  have "\<not> flt a ?r \<and> \<not> flt w ?r"
  proof (cases "flt w a")
    case True
    then have "\<not> flt w ?r" using la by simp
    moreover have "\<not> flt a ?r"
      using True calculation flt_trans [of w a ?r] by blast
    ultimately show ?thesis by simp
  next
    case False
    then have "\<not> flt a ?r" using la by simp
    moreover have "\<not> flt w ?r"
      using False calculation flt_neg_trans [OF nn(3) rn nn(2)] by blast
    ultimately show ?thesis by simp
  qed
  then show ?case
    using mem low by auto
qed

lemma foldl_max_greatest:
  "NaN \<notin> set (a # vs) \<Longrightarrow>
   foldl (\<lambda>max v. if flt max v then v else max) a vs \<in> set (a # vs) \<and>
   (\<forall>v \<in> set (a # vs). \<not> flt (foldl (\<lambda>max v. if flt max v then v else max) a vs) v)"
proof (induction vs arbitrary: a)
  case Nil
  show ?case by (simp add: flt_irrefl)
next
  case (Cons w vs)
  let ?a = "if flt a w then w else a"
  let ?r = "foldl (\<lambda>max v. if flt max v then v else max) ?a vs"
  have nn: "NaN \<notin> set (?a # vs)" "a \<noteq> NaN" "w \<noteq> NaN"
    using Cons.prems by auto
  from Cons.IH [OF nn(1)]
  have mem: "?r \<in> set (?a # vs)" and up: "\<forall>v \<in> set (?a # vs). \<not> flt ?r v"
    by auto
  have rn: "?r \<noteq> NaN" using mem nn(1) by metis
  have la: "\<not> flt ?r ?a" using up by simp
  have "\<not> flt ?r a \<and> \<not> flt ?r w"
  proof (cases "flt a w")
    case True
    then have "\<not> flt ?r w" using la by simp
    moreover have "\<not> flt ?r a"
      using True calculation flt_trans [of ?r a w] by blast
    ultimately show ?thesis by simp
  next
    case False
    then have "\<not> flt ?r a" using la by simp
    moreover have "\<not> flt ?r w"
      using False calculation flt_neg_trans [OF rn nn(3) nn(2)] by blast
    ultimately show ?thesis by simp
  qed
  then show ?case
    using mem up by auto
qed

lemma hd_tl_Cons: "vs \<noteq> [] \<Longrightarrow> hd vs # tl vs = vs"
  by simp

lemma aggregate_sum:
  "aggregateValues vs ''sum'' = foldl (\<lambda>sum v. fadd sum v) (Finite 0) vs"
  by (simp add: aggregateValues_def)

lemma aggregate_default:
  "aggregateValues vs [] = foldl (\<lambda>sum v. fadd sum v) (Finite 0) vs"
  by (simp add: aggregateValues_def)

lemma aggregate_mean:
  "vs \<noteq> [] \<Longrightarrow>
     aggregateValues vs ''mean'' =
       fdiv (foldl (\<lambda>sum v. fadd sum v) (Finite 0) vs) (float64OfInt (int (length vs)))"
  by (simp add: aggregateValues_def)

lemma aggregate_count: "aggregateValues vs ''count'' = float64OfInt (int (length vs))"
  by (simp add: aggregateValues_def float64OfInt_def round64_zero)

lemma aggregate_min:
  assumes "vs \<noteq> []" "NaN \<notin> set vs"
  shows "aggregateValues vs ''min'' \<in> set vs \<and>
         (\<forall>v \<in> set vs. \<not> flt v (aggregateValues vs ''min''))"
proof -
  have "NaN \<notin> set (hd vs # tl vs)"
    using assms by (cases vs) simp_all
  from foldl_min_least [OF this]
  show ?thesis
    using assms(1) by (simp add: aggregateValues_def hd_tl_Cons del: foldl_Cons)
qed

lemma aggregate_max:
  assumes "vs \<noteq> []" "NaN \<notin> set vs"
  shows "aggregateValues vs ''max'' \<in> set vs \<and>
         (\<forall>v \<in> set vs. \<not> flt (aggregateValues vs ''max'') v)"
proof -
  have "NaN \<notin> set (hd vs # tl vs)"
    using assms by (cases vs) simp_all
  from foldl_max_greatest [OF this]
  show ?thesis
    using assms(1) by (simp add: aggregateValues_def hd_tl_Cons del: foldl_Cons)
qed

lemma aggregate_min_loop:
  "vs \<noteq> [] \<Longrightarrow>
     aggregateValues vs ''min'' =
       foldl (\<lambda>min v. if flt v min then v else min) (hd vs) (tl vs)"
  by (simp add: aggregateValues_def)

lemma aggregate_max_loop:
  "vs \<noteq> [] \<Longrightarrow>
     aggregateValues vs ''max'' =
       foldl (\<lambda>max v. if flt max v then v else max) (hd vs) (tl vs)"
  by (simp add: aggregateValues_def)

text \<open>With a NaN in the group the result of the comparison loop depends on the order.\<close>

lemma aggregate_min_NaN_example:
  "aggregateValues [NaN, Finite 1] ''min'' = NaN"
  "aggregateValues [Finite 1, NaN] ''min'' = Finite 1"
  by (simp_all add: aggregateValues_def)

lemma aggregate_sum_ints:
  "sum_list (map abs ks) \<le> 2 ^ 53 \<Longrightarrow>
     aggregateValues (map (\<lambda>k. Finite (of_int k)) ks) ''sum'' = Finite (of_int (sum_list ks))"
  using foldl_fadd_ints [of 0 ks] by (simp add: aggregate_sum)

lemma groupValues_gauge_example:
  "groupValues [gaugeRecord 10, gaugeRecord 20, gaugeRecord (- 5)] =
     [Finite 10, Finite 20, Finite (- 5)]"
  by (simp add: groupValues_def gaugeRecord_def extractValuesFromMetric_def)

lemma groupValues_large_example:
  "groupValues [gaugeRecord 10000000000000000, gaugeRecord 1, gaugeRecord (- 10000000000000000)] =
     [Finite 10000000000000000, Finite 1, Finite (- 10000000000000000)]"
  by (simp add: groupValues_def gaugeRecord_def extractValuesFromMetric_def)

lemma groupValues_Nil: "groupValues [] = []"
  by (simp add: groupValues_def)

lemma extract_gauge_double:
  "dp_value dp = NumberDouble d \<Longrightarrow>
     extractValuesFromMetric (metric\<lparr>m_data := MetricGauge [dp]\<rparr>) = [d]"
  by (simp add: extractValuesFromMetric_def)

lemma extract_gauge_int:
  "dp_value dp = NumberInt i \<Longrightarrow>
     extractValuesFromMetric (metric\<lparr>m_data := MetricGauge [dp]\<rparr>) = [float64OfInt (sint i)]"
  by (simp add: extractValuesFromMetric_def)

lemma extract_sum_double:
  "dp_value dp = NumberDouble d \<Longrightarrow>
     extractValuesFromMetric (metric\<lparr>m_data := MetricSum t monotonic [dp]\<rparr>) = [d]"
  by (simp add: extractValuesFromMetric_def)

lemma extract_sum_int:
  "dp_value dp = NumberInt i \<Longrightarrow>
     extractValuesFromMetric (metric\<lparr>m_data := MetricSum t monotonic [dp]\<rparr>) =
       [float64OfInt (sint i)]"
  by (simp add: extractValuesFromMetric_def)

lemma extract_histogram:
  "extractValuesFromMetric (metric\<lparr>m_data := MetricHistogram t [hdp]\<rparr>) = [hdp_sum hdp]"
  by (simp add: extractValuesFromMetric_def)

lemma aggregate_gauge_example:
  "aggregateValues [Finite 10, Finite 20, Finite (- 5)] ''sum'' = Finite 25"
  "aggregateValues [Finite 10, Finite 20, Finite (- 5)] ''mean'' =
     Finite (4691249611844267 / 562949953421312)"
  "aggregateValues [Finite 10, Finite 20, Finite (- 5)] ''min'' = Finite (- 5)"
  "aggregateValues [Finite 10, Finite 20, Finite (- 5)] ''max'' = Finite 20"
  "aggregateValues [Finite 10, Finite 20, Finite (- 5)] ''count'' = Finite 3"
  by (simp_all add: aggregateValues_def float_simps round64_mean_example)

text \<open>
  C2, as stated, fails for the sum: the additions are rounded. For the three gauge values
  \<open>10^16\<close>, 1 and \<open>-10^16\<close> the aggregation type \<open>sum\<close> gives 0, and their arithmetic
  sum is 1.
\<close>

theorem calculateAggregatedValue_sum_counterexample:
  "calculateAggregatedValue
     [gaugeRecord 10000000000000000, gaugeRecord 1, gaugeRecord (- 10000000000000000)]
     ''sum'' = Finite 0 \<and>
   sum_list [10000000000000000, 1, - 10000000000000000] = (1::real)"
  by (simp add: calculateAggregatedValue_groupValues groupValues_large_example aggregate_sum
      round64_large_example round64_tie_example round64_zero)

text \<open>
  C2, amended. The scalar of a record is the value of its gauge or sum point (an integer
  value converted to the nearest \<open>float64\<close>, which is the integer itself up to \<open>2^53\<close>
  in magnitude) or the sum field of its histogram point. The aggregation types \<open>sum\<close>
  and the empty string give the \<open>float64\<close> sum of the scalars, accumulated from 0 in the
  order of the records with each addition rounded; it is the arithmetic sum when the
  scalars are integers whose magnitudes add up to at most \<open>2^53\<close>. The type \<open>count\<close>
  gives the number of the scalars, and for a group with at least one scalar \<open>mean\<close>
  gives the sum divided by that number. The types \<open>min\<close> and \<open>max\<close> give the result of
  the comparison loop from the first scalar on; for a group with at least one scalar and
  without a NaN, that is a scalar of the group that none of them is less than, and one
  that is less than none of them. For the three gauge values 10, 20 and -5 the results
  are 25, the \<open>float64\<close> nearest to 25/3, -5, 20 and 3; the integer \<open>2^53 + 1\<close> is
  converted to \<open>2^53\<close>.
\<close>

theorem calculateAggregatedValue_combines:
  "(dp_value dp = NumberDouble d \<longrightarrow>
      extractValuesFromMetric (metric\<lparr>m_data := MetricGauge [dp]\<rparr>) = [d] \<and>
      extractValuesFromMetric (metric\<lparr>m_data := MetricSum t monotonic [dp]\<rparr>) = [d]) \<and>
   (dp_value dp = NumberInt i \<longrightarrow>
      extractValuesFromMetric (metric\<lparr>m_data := MetricGauge [dp]\<rparr>) = [float64OfInt (sint i)] \<and>
      extractValuesFromMetric (metric\<lparr>m_data := MetricSum t monotonic [dp]\<rparr>) =
        [float64OfInt (sint i)]) \<and>
   (\<bar>sint i\<bar> \<le> 2 ^ 53 \<longrightarrow> float64OfInt (sint i) = Finite (of_int (sint i))) \<and>
   extractValuesFromMetric (metric\<lparr>m_data := MetricHistogram t [hdp]\<rparr>) = [hdp_sum hdp] \<and>
   calculateAggregatedValue metrics ''sum'' =
     foldl (\<lambda>sum v. fadd sum v) (Finite 0) (groupValues metrics) \<and>
   calculateAggregatedValue metrics [] =
     foldl (\<lambda>sum v. fadd sum v) (Finite 0) (groupValues metrics) \<and>
   calculateAggregatedValue metrics ''count'' =
     float64OfInt (int (length (groupValues metrics))) \<and>
   (groupValues metrics = map (\<lambda>k. Finite (of_int k)) ks \<and> sum_list (map abs ks) \<le> 2 ^ 53 \<longrightarrow>
      calculateAggregatedValue metrics ''sum'' = Finite (of_int (sum_list ks))) \<and>
   (groupValues metrics \<noteq> [] \<longrightarrow>
      calculateAggregatedValue metrics ''mean'' =
        fdiv (foldl (\<lambda>sum v. fadd sum v) (Finite 0) (groupValues metrics))
          (float64OfInt (int (length (groupValues metrics))))) \<and>
   (groupValues metrics \<noteq> [] \<and> NaN \<notin> set (groupValues metrics) \<longrightarrow>
      calculateAggregatedValue metrics ''min'' \<in> set (groupValues metrics) \<and>
      (\<forall>v \<in> set (groupValues metrics). \<not> flt v (calculateAggregatedValue metrics ''min'')) \<and>
      calculateAggregatedValue metrics ''max'' \<in> set (groupValues metrics) \<and>
      (\<forall>v \<in> set (groupValues metrics). \<not> flt (calculateAggregatedValue metrics ''max'') v)) \<and>
   (groupValues metrics \<noteq> [] \<longrightarrow>
      calculateAggregatedValue metrics ''min'' =
        foldl (\<lambda>min v. if flt v min then v else min)
          (hd (groupValues metrics)) (tl (groupValues metrics)) \<and>
      calculateAggregatedValue metrics ''max'' =
        foldl (\<lambda>max v. if flt max v then v else max)
          (hd (groupValues metrics)) (tl (groupValues metrics))) \<and>
   (length (groupValues metrics) \<le> 2 ^ 53 \<longrightarrow>
      calculateAggregatedValue metrics ''count'' =
        Finite (of_nat (length (groupValues metrics)))) \<and>
   float64OfInt 9007199254740993 = Finite 9007199254740992 \<and>
   calculateAggregatedValue [gaugeRecord 10, gaugeRecord 20, gaugeRecord (- 5)] ''sum'' =
     Finite 25 \<and>
   calculateAggregatedValue [gaugeRecord 10, gaugeRecord 20, gaugeRecord (- 5)] ''mean'' =
     round64 (25 / 3) \<and>
   calculateAggregatedValue [gaugeRecord 10, gaugeRecord 20, gaugeRecord (- 5)] ''min'' =
     Finite (- 5) \<and>
   calculateAggregatedValue [gaugeRecord 10, gaugeRecord 20, gaugeRecord (- 5)] ''max'' =
     Finite 20 \<and>
   calculateAggregatedValue [gaugeRecord 10, gaugeRecord 20, gaugeRecord (- 5)] ''count'' =
     Finite 3"
proof -
  have c1: "dp_value dp = NumberDouble d \<longrightarrow>
      extractValuesFromMetric (metric\<lparr>m_data := MetricGauge [dp]\<rparr>) = [d] \<and>
      extractValuesFromMetric (metric\<lparr>m_data := MetricSum t monotonic [dp]\<rparr>) = [d]"
    by (simp add: extract_gauge_double extract_sum_double)
  have c2: "dp_value dp = NumberInt i \<longrightarrow>
      extractValuesFromMetric (metric\<lparr>m_data := MetricGauge [dp]\<rparr>) = [float64OfInt (sint i)] \<and>
      extractValuesFromMetric (metric\<lparr>m_data := MetricSum t monotonic [dp]\<rparr>) =
        [float64OfInt (sint i)]"
    by (simp add: extract_gauge_int extract_sum_int)
  have c3: "\<bar>sint i\<bar> \<le> 2 ^ 53 \<longrightarrow> float64OfInt (sint i) = Finite (of_int (sint i))"
    using float64OfInt_exact [of "sint i"] by blast
  have c4: "extractValuesFromMetric (metric\<lparr>m_data := MetricHistogram t [hdp]\<rparr>) = [hdp_sum hdp]"
    by (rule extract_histogram)
  have c5: "calculateAggregatedValue metrics ''sum'' =
       foldl (\<lambda>sum v. fadd sum v) (Finite 0) (groupValues metrics)"
    and c6: "calculateAggregatedValue metrics [] =
       foldl (\<lambda>sum v. fadd sum v) (Finite 0) (groupValues metrics)"
    and c7: "calculateAggregatedValue metrics ''count'' =
       float64OfInt (int (length (groupValues metrics)))"
    by (simp_all only: calculateAggregatedValue_groupValues aggregate_sum aggregate_default
        aggregate_count)
  have c8: "groupValues metrics = map (\<lambda>k. Finite (of_int k)) ks \<and>
      sum_list (map abs ks) \<le> 2 ^ 53 \<longrightarrow>
      calculateAggregatedValue metrics ''sum'' = Finite (of_int (sum_list ks))"
    using aggregate_sum_ints [of ks] by (simp add: calculateAggregatedValue_groupValues)
  have c9: "groupValues metrics \<noteq> [] \<longrightarrow>
      calculateAggregatedValue metrics ''mean'' =
        fdiv (foldl (\<lambda>sum v. fadd sum v) (Finite 0) (groupValues metrics))
          (float64OfInt (int (length (groupValues metrics))))"
    by (simp add: calculateAggregatedValue_groupValues aggregate_mean)
  have c10: "groupValues metrics \<noteq> [] \<and> NaN \<notin> set (groupValues metrics) \<longrightarrow>
      calculateAggregatedValue metrics ''min'' \<in> set (groupValues metrics) \<and>
      (\<forall>v \<in> set (groupValues metrics). \<not> flt v (calculateAggregatedValue metrics ''min'')) \<and>
      calculateAggregatedValue metrics ''max'' \<in> set (groupValues metrics) \<and>
      (\<forall>v \<in> set (groupValues metrics). \<not> flt (calculateAggregatedValue metrics ''max'') v)"
    using aggregate_min [of "groupValues metrics"] aggregate_max [of "groupValues metrics"]
    by (simp only: calculateAggregatedValue_groupValues) blast
  have c16: "groupValues metrics \<noteq> [] \<longrightarrow>
      calculateAggregatedValue metrics ''min'' =
        foldl (\<lambda>min v. if flt v min then v else min)
          (hd (groupValues metrics)) (tl (groupValues metrics)) \<and>
      calculateAggregatedValue metrics ''max'' =
        foldl (\<lambda>max v. if flt max v then v else max)
          (hd (groupValues metrics)) (tl (groupValues metrics))"
    by (simp add: calculateAggregatedValue_groupValues aggregate_min_loop aggregate_max_loop)
  have c17: "length (groupValues metrics) \<le> 2 ^ 53 \<longrightarrow>
      calculateAggregatedValue metrics ''count'' =
        Finite (of_nat (length (groupValues metrics)))"
  proof
    assume "length (groupValues metrics) \<le> 2 ^ 53"
    then have "\<bar>int (length (groupValues metrics))\<bar> \<le> 2 ^ 53"
      by (metis abs_of_nat of_nat_le_iff of_nat_numeral of_nat_power)
    from float64OfInt_exact [OF this]
    show "calculateAggregatedValue metrics ''count'' =
        Finite (of_nat (length (groupValues metrics)))"
      by (simp add: c7)
  qed
  have c18: "float64OfInt 9007199254740993 = Finite 9007199254740992"
    by (rule float64OfInt_rounds_example)
  have c11:
    "calculateAggregatedValue [gaugeRecord 10, gaugeRecord 20, gaugeRecord (- 5)] ''sum'' =
       Finite 25"
    and c12:
    "calculateAggregatedValue [gaugeRecord 10, gaugeRecord 20, gaugeRecord (- 5)] ''mean'' =
       round64 (25 / 3)"
    and c13:
    "calculateAggregatedValue [gaugeRecord 10, gaugeRecord 20, gaugeRecord (- 5)] ''min'' =
       Finite (- 5)"
    and c14:
    "calculateAggregatedValue [gaugeRecord 10, gaugeRecord 20, gaugeRecord (- 5)] ''max'' =
       Finite 20"
    and c15:
    "calculateAggregatedValue [gaugeRecord 10, gaugeRecord 20, gaugeRecord (- 5)] ''count'' =
       Finite 3"
    by (simp_all only: calculateAggregatedValue_groupValues groupValues_gauge_example
        aggregate_gauge_example round64_mean_example)
  show ?thesis
    by (intro conjI)
      (rule c1 c2 c3 c4 c5 c6 c7 c8 c9 c10 c11 c12 c13 c14 c15 c16 c17 c18)+
qed

theorem calculateAggregatedValue_combines_witness:
  "dp_value doublePoint = NumberDouble (Finite 10) \<and>
   extractValuesFromMetric (mwr_Metric (gaugeRecord 1)\<lparr>m_data := MetricGauge [doublePoint]\<rparr>) =
     [Finite 10] \<and>
   dp_value intPoint = NumberInt 7 \<and>
   \<bar>sint (7 :: 64 word)\<bar> \<le> 2 ^ 53 \<and>
   extractValuesFromMetric
     (mwr_Metric (gaugeRecord 1)\<lparr>m_data := MetricSum TemporalityCumulative True [intPoint]\<rparr>) =
     [Finite 7] \<and>
   length (groupValues [gaugeRecord 10, gaugeRecord 20, gaugeRecord (- 5)]) \<le> 2 ^ 53 \<and>
   calculateAggregatedValue [gaugeRecord 10, gaugeRecord 20, gaugeRecord (- 5)] ''count'' =
     Finite 3 \<and>
   groupValues [gaugeRecord 10, gaugeRecord 20, gaugeRecord (- 5)] =
     map (\<lambda>k. Finite (of_int k)) [10, 20, - 5] \<and>
   sum_list (map abs [10, 20, - 5 :: int]) \<le> 2 ^ 53 \<and>
   NaN \<notin> set (groupValues [gaugeRecord 10, gaugeRecord 20, gaugeRecord (- 5)]) \<and>
   calculateAggregatedValue [gaugeRecord 10, gaugeRecord 20, gaugeRecord (- 5)] ''sum'' =
     Finite (of_int (sum_list [10, 20, - 5])) \<and>
   calculateAggregatedValue [gaugeRecord 10, gaugeRecord 20, gaugeRecord (- 5)] ''mean'' =
     Finite (4691249611844267 / 562949953421312) \<and>
   \<bar>4691249611844267 / 562949953421312 - 25 / 3\<bar> < (1 / 10 ^ 15 :: real) \<and>
   calculateAggregatedValue [gaugeRecord 10, gaugeRecord 20, gaugeRecord (- 5)] ''min'' \<in>
     set (groupValues [gaugeRecord 10, gaugeRecord 20, gaugeRecord (- 5)]) \<and>
   \<not> flt (Finite (- 5))
     (calculateAggregatedValue [gaugeRecord 10, gaugeRecord 20, gaugeRecord (- 5)] ''min'') \<and>
   \<not> flt (calculateAggregatedValue [gaugeRecord 10, gaugeRecord 20, gaugeRecord (- 5)] ''max'')
     (Finite 20)"
proof -
  let ?M = "[gaugeRecord 10, gaugeRecord 20, gaugeRecord (- 5)]"
  have pre:
    "groupValues ?M = map (\<lambda>k. Finite (of_int k)) [10, 20, - 5]"
    "sum_list (map abs [10, 20, - 5 :: int]) \<le> 2 ^ 53"
    "NaN \<notin> set (groupValues ?M)"
    "groupValues ?M \<noteq> []"
    by (simp_all add: groupValues_gauge_example)
  have near: "\<bar>4691249611844267 / 562949953421312 - 25 / 3\<bar> < (1 / 10 ^ 15 :: real)"
    by simp
  note T = calculateAggregatedValue_combines [where metrics = ?M and ks = "[10, 20, - 5]"]
  have dbl: "dp_value doublePoint = NumberDouble (Finite 10)"
    by (simp add: doublePoint_def)
  have int: "dp_value intPoint = NumberInt 7" "\<bar>sint (7 :: 64 word)\<bar> \<le> 2 ^ 53"
    "of_int (sint (7 :: 64 word)) = (7 :: real)"
    by (simp_all add: intPoint_def)
  have e1: "extractValuesFromMetric
      (mwr_Metric (gaugeRecord 1)\<lparr>m_data := MetricGauge [doublePoint]\<rparr>) = [Finite 10]"
    using calculateAggregatedValue_combines
      [where dp = doublePoint and d = "Finite 10" and metric = "mwr_Metric (gaugeRecord 1)"] dbl
    by blast
  have "extractValuesFromMetric
      (mwr_Metric (gaugeRecord 1)\<lparr>m_data := MetricSum TemporalityCumulative True [intPoint]\<rparr>) =
      [float64OfInt (sint (7 :: 64 word))]"
    "float64OfInt (sint (7 :: 64 word)) = Finite (of_int (sint (7 :: 64 word)))"
    using calculateAggregatedValue_combines
      [where dp = intPoint and i = 7 and metric = "mwr_Metric (gaugeRecord 1)"
         and t = TemporalityCumulative and monotonic = True] int(1,2)
    by blast+
  then have e2: "extractValuesFromMetric
      (mwr_Metric (gaugeRecord 1)\<lparr>m_data := MetricSum TemporalityCumulative True [intPoint]\<rparr>) =
      [Finite 7]"
    by (simp only: int(3))
  have len: "length (groupValues ?M) \<le> 2 ^ 53"
    by (simp add: groupValues_gauge_example)
  have cnt: "calculateAggregatedValue ?M ''count'' = Finite 3"
    using T by blast
  have sum: "calculateAggregatedValue ?M ''sum'' = Finite (of_int (sum_list [10, 20, - 5]))"
    using T pre(1,2) by blast
  have mean: "calculateAggregatedValue ?M ''mean'' = round64 (25 / 3)"
    using T by blast
  have ext: "calculateAggregatedValue ?M ''min'' \<in> set (groupValues ?M)"
    "\<forall>v \<in> set (groupValues ?M). \<not> flt v (calculateAggregatedValue ?M ''min'')"
    "\<forall>v \<in> set (groupValues ?M). \<not> flt (calculateAggregatedValue ?M ''max'') v"
    using T pre(3,4) by blast+
  have "Finite (- 5) \<in> set (groupValues ?M)" "Finite 20 \<in> set (groupValues ?M)"
    by (simp_all add: groupValues_gauge_example)
  then have "\<not> flt (Finite (- 5)) (calculateAggregatedValue ?M ''min'')"
    "\<not> flt (calculateAggregatedValue ?M ''max'') (Finite 20)"
    using ext(2,3) by blast+
  then show ?thesis
    using pre(1,2,3) near sum mean ext(1) dbl e1 int(1,2) e2 len cnt
    by (simp only: round64_mean_example simp_thms)
qed

text \<open>
  C6. The aggregated value is 0 when the group has no scalar, whatever the aggregation
  type, and it is 0 when the aggregation type is none of \<open>sum\<close>, the empty string,
  \<open>mean\<close>, \<open>min\<close>, \<open>max\<close> and \<open>count\<close>. The function is total: each case returns a
  number.
\<close>

theorem calculateAggregatedValue_zero_fallback:
  "(groupValues metrics = [] \<longrightarrow> calculateAggregatedValue metrics t = Finite 0) \<and>
   (t \<notin> {''sum'', [], ''mean'', ''min'', ''max'', ''count''} \<longrightarrow>
      calculateAggregatedValue metrics t = Finite 0)"
  by (simp add: calculateAggregatedValue_groupValues aggregateValues_def)

theorem calculateAggregatedValue_zero_fallback_witness:
  "groupValues [] = [] \<and>
   calculateAggregatedValue [] ''min'' = Finite 0 \<and>
   calculateAggregatedValue [] ''max'' = Finite 0 \<and>
   ''median'' \<notin> {''sum'', [], ''mean'', ''min'', ''max'', ''count''} \<and>
   groupValues [gaugeRecord 10, gaugeRecord 20, gaugeRecord (- 5)] \<noteq> [] \<and>
   calculateAggregatedValue [gaugeRecord 10, gaugeRecord 20, gaugeRecord (- 5)] ''median'' =
     Finite 0"
  using calculateAggregatedValue_zero_fallback [of "[]" "''min''"]
    calculateAggregatedValue_zero_fallback [of "[]" "''max''"]
    calculateAggregatedValue_zero_fallback
      [of "[gaugeRecord 10, gaugeRecord 20, gaugeRecord (- 5)]" "''median''"]
  by (simp add: groupValues_gauge_example groupValues_Nil)

section \<open>The group key\<close>

lemma keyPartsLoop_presentPairs:
  "keyPartsLoop r p labels acc = acc @ presentPairs r p labels"
  by (induction labels arbitrary: acc)
     (simp_all add: presentPairs_def lookupLabel_def List.map_filter_simps split: option.splits)

text \<open>
  C1. The group key is made of the \<open>name=value\<close> pairs of the labels that have a value,
  taken in the order of the label names, the value of a label being its point attribute
  and, without one, its resource attribute; a label with neither gives no pair, a label
  whose value is the empty string gives the pair \<open>name=\<close>. The pairs are joined with
  a bar; without any pair, and so for the empty list of names, the key is \<open>all\<close>.
\<close>

theorem buildGroupKeyFromPresentAttributes_spec:
  "buildGroupKeyFromPresentAttributes r p labels =
     (if presentPairs r p labels = [] then ''all'' else Join (presentPairs r p labels) ''|'') \<and>
   buildGroupKeyFromPresentAttributes r p [] = ''all'' \<and>
   (lookupLabel r p l = None \<longrightarrow> presentPairs r p (l # labels) = presentPairs r p labels) \<and>
   (lookupLabel r p l = Some v \<longrightarrow>
      presentPairs r p (l # labels) = (l @ ''='' @ AsString v) # presentPairs r p labels) \<and>
   (lookupLabel r p l = Some (ValueStr []) \<longrightarrow>
      buildGroupKeyFromPresentAttributes r p [l] = l @ ''='')"
  by (simp add: buildGroupKeyFromPresentAttributes_def keyPartsLoop_presentPairs Let_def
      presentPairs_def List.map_filter_simps)

theorem buildGroupKeyFromPresentAttributes_spec_witness:
  "lookupLabel exampleResourceAttrs examplePointAttrs ''missing_label'' = None \<and>
   lookupLabel exampleResourceAttrs examplePointAttrs ''cluster'' = Some (ValueStr ''prod'') \<and>
   lookupLabel exampleResourceAttrs examplePointAttrs ''empty_label'' = Some (ValueStr []) \<and>
   buildGroupKeyFromPresentAttributes exampleResourceAttrs examplePointAttrs
     [''empty_label''] = ''empty_label='' \<and>
   buildGroupKeyFromPresentAttributes exampleResourceAttrs examplePointAttrs
     [''cluster'', ''service'', ''missing_label''] = ''cluster=prod|service=web'' \<and>
   buildGroupKeyFromPresentAttributes exampleResourceAttrs examplePointAttrs
     [''cluster'', ''service'', ''empty_label''] = ''cluster=prod|service=web|empty_label='' \<and>
   buildGroupKeyFromPresentAttributes exampleResourceAttrs examplePointAttrs
     [''missing1'', ''missing2''] = ''all''"
  using buildGroupKeyFromPresentAttributes_spec
      [of exampleResourceAttrs examplePointAttrs "[''cluster'', ''service'', ''missing_label'']"
        "''missing_label''" "ValueStr ''prod''"]
    buildGroupKeyFromPresentAttributes_spec
      [of exampleResourceAttrs examplePointAttrs "[''cluster'', ''service'', ''empty_label'']"
        "''cluster''" "ValueStr ''prod''"]
    buildGroupKeyFromPresentAttributes_spec
      [of exampleResourceAttrs examplePointAttrs "[''missing1'', ''missing2'']"
        "''empty_label''" "ValueStr []"]
  by (simp add: exampleResourceAttrs_def examplePointAttrs_def lookupLabel_def Get_def
      presentPairs_def List.map_filter_simps)

section \<open>Metric-name sanitization\<close>

lemma validFirstChar_validNameChar: "validFirstChar c \<Longrightarrow> validNameChar c"
  by (auto simp: validFirstChar_def validNameChar_def)

lemma validNameChar_ascii: "validNameChar c \<Longrightarrow> byteOf c < 128"
  by (auto simp: validNameChar_def isLetter_def isDigit_def byteOf_def)

lemma DecodeRuneWidth_valid: "validNameChar c \<Longrightarrow> DecodeRuneWidth (c # cs) = 1"
  using validNameChar_ascii [of c] by simp

lemma concat_runes: "concat (runes name) = name"
  by (induction name rule: runes.induct) simp_all

lemma replaceRune_invalid: "\<not> validNameChar c \<Longrightarrow> replaceRune (c # r) = ''_''"
  by (cases r) (simp_all add: replaceRune_def)

lemma ReplaceAllInvalid_runes: "ReplaceAllInvalid name = replaceInvalid name"
proof (induction name rule: ReplaceAllInvalid.induct)
  case 1
  show ?case by (simp add: replaceInvalid_def)
next
  case (2 c cs)
  show ?case
  proof (cases "validNameChar c")
    case True
    then show ?thesis
      using 2 DecodeRuneWidth_valid [OF True, of cs]
      by (simp add: replaceInvalid_def replaceRune_def del: DecodeRuneWidth.simps)
  next
    case False
    then show ?thesis
      using 2 by (simp add: replaceInvalid_def replaceRune_invalid del: DecodeRuneWidth.simps)
  qed
qed

lemma ReplaceAllInvalid_valid: "list_all validNameChar (ReplaceAllInvalid name)"
  by (induction name rule: ReplaceAllInvalid.induct)
     (simp_all add: validNameChar_def del: DecodeRuneWidth.simps)

lemma ReplaceAllInvalid_id: "list_all validNameChar name \<Longrightarrow> ReplaceAllInvalid name = name"
  by (induction name) simp_all

lemma ReplaceAllInvalid_Nil_iff: "ReplaceAllInvalid name = [] \<longleftrightarrow> name = []"
  by (cases name) simp_all

lemma sanitizeMetricName_eq:
  "sanitizeMetricName name =
     (if name \<noteq> [] \<and> \<not> validFirstChar (hd (replaceInvalid name))
      then CHR ''_'' # replaceInvalid name else replaceInvalid name)"
  using ReplaceAllInvalid_Nil_iff [of name]
  by (simp add: sanitizeMetricName_def Let_def ReplaceAllInvalid_runes [symmetric])

text \<open>
  C7, as stated, fails for the empty name: it is returned as it is, and the empty string
  does not match \<open>[A-Za-z_:][A-Za-z0-9_:]*\<close>.
\<close>

theorem sanitizeMetricName_empty_counterexample:
  "sanitizeMetricName [] = [] \<and> \<not> matchesNamePattern (sanitizeMetricName [])"
  by (simp add: sanitizeMetricName_def matchesNamePattern_def)

text \<open>
  C7, amended. The empty name is returned as the empty name. For every name that is not
  empty, the sanitized name matches \<open>[A-Za-z_:][A-Za-z0-9_:]*\<close>; it is the name with
  each character outside \<open>[A-Za-z0-9_:]\<close> replaced by one underscore, with one more
  underscore in front exactly when the first character after the replacement is not in
  \<open>[A-Za-z_:]\<close>; and a name that matches the pattern already is returned unchanged. A
  character is a rune as Go decodes it, a byte that begins no well-formed UTF-8 sequence
  being a rune of its own; the runes of a name, one after the other, make up the name.
\<close>

theorem sanitizeMetricName_nonempty:
  "sanitizeMetricName [] = [] \<and>
   concat (runes name) = name \<and>
   (name \<noteq> [] \<longrightarrow>
      matchesNamePattern (sanitizeMetricName name) \<and>
      sanitizeMetricName name =
        (if validFirstChar (hd (replaceInvalid name)) then replaceInvalid name
         else CHR ''_'' # replaceInvalid name) \<and>
      (matchesNamePattern name \<longrightarrow> sanitizeMetricName name = name))"
proof -
  have empty: "sanitizeMetricName [] = []"
    by (simp add: sanitizeMetricName_def)
  have nonempty:
    "matchesNamePattern (sanitizeMetricName name) \<and>
     sanitizeMetricName name =
       (if validFirstChar (hd (replaceInvalid name)) then replaceInvalid name
        else CHR ''_'' # replaceInvalid name) \<and>
     (matchesNamePattern name \<longrightarrow> sanitizeMetricName name = name)"
    if ne: "name \<noteq> []"
  proof -
    obtain c cs where n: "name = c # cs"
      using ne by (cases name) auto
    have v: "list_all validNameChar (replaceInvalid name)"
      using ReplaceAllInvalid_valid [of name] by (simp only: ReplaceAllInvalid_runes)
    have "replaceInvalid name \<noteq> []"
      using ne ReplaceAllInvalid_Nil_iff [of name] by (simp add: ReplaceAllInvalid_runes)
    then obtain d ds where r: "replaceInvalid name = d # ds"
      by (cases "replaceInvalid name") auto
    have matches: "matchesNamePattern (sanitizeMetricName name)"
      using v ne r by (simp add: sanitizeMetricName_eq matchesNamePattern_def validFirstChar_def)
    have unchanged: "matchesNamePattern name \<longrightarrow> sanitizeMetricName name = name"
    proof
      assume m: "matchesNamePattern name"
      then have "list_all validNameChar name"
        using n by (simp add: matchesNamePattern_def validFirstChar_validNameChar)
      then have "replaceInvalid name = name"
        using ReplaceAllInvalid_id [of name] by (simp only: ReplaceAllInvalid_runes)
      then show "sanitizeMetricName name = name"
        using m n by (simp add: sanitizeMetricName_eq matchesNamePattern_def)
    qed
    show ?thesis
      using matches unchanged ne by (simp add: sanitizeMetricName_eq)
  qed
  show ?thesis
    using empty nonempty concat_runes [of name] by blast
qed

theorem sanitizeMetricName_nonempty_witness:
  "''123_invalid_start'' \<noteq> [] \<and>
   matchesNamePattern (sanitizeMetricName ''123_invalid_start'') \<and>
   sanitizeMetricName ''123_invalid_start'' = ''_123_invalid_start'' \<and>
   ''sanitized-metric.name@test#'' \<noteq> [] \<and>
   matchesNamePattern (sanitizeMetricName ''sanitized-metric.name@test#'') \<and>
   sanitizeMetricName ''sanitized-metric.name@test#'' = ''sanitized_metric_name_test_'' \<and>
   matchesNamePattern ''valid_metric_name'' \<and>
   sanitizeMetricName ''valid_metric_name'' = ''valid_metric_name'' \<and>
   cafeName \<noteq> [] \<and>
   runes cafeName = [''c'', ''a'', ''f'', [CHR 0xC3, CHR 0xA9]] \<and>
   matchesNamePattern (sanitizeMetricName cafeName) \<and>
   sanitizeMetricName cafeName = ''caf_''"
proof -
  have ne: "''123_invalid_start'' \<noteq> []" "''sanitized-metric.name@test#'' \<noteq> []"
    "''valid_metric_name'' \<noteq> []" "cafeName \<noteq> []"
    by (simp_all add: cafeName_def)
  have ev: "sanitizeMetricName ''123_invalid_start'' = ''_123_invalid_start''"
    "sanitizeMetricName ''sanitized-metric.name@test#'' = ''sanitized_metric_name_test_''"
    "sanitizeMetricName cafeName = ''caf_''"
    "runes cafeName = [''c'', ''a'', ''f'', [CHR 0xC3, CHR 0xA9]]"
    "matchesNamePattern ''valid_metric_name''"
    by (simp_all add: sanitizeMetricName_def cafeName_def matchesNamePattern_def
        validNameChar_def validFirstChar_def isLetter_def isDigit_def byteOf_def inRange_def)
  have m1: "matchesNamePattern (sanitizeMetricName ''123_invalid_start'')"
    using sanitizeMetricName_nonempty [of "''123_invalid_start''"] ne(1) by blast
  have m2: "matchesNamePattern (sanitizeMetricName ''sanitized-metric.name@test#'')"
    using sanitizeMetricName_nonempty [of "''sanitized-metric.name@test#''"] ne(2) by blast
  have m3: "sanitizeMetricName ''valid_metric_name'' = ''valid_metric_name''"
    using sanitizeMetricName_nonempty [of "''valid_metric_name''"] ne(3) ev(5) by blast
  have m4: "matchesNamePattern (sanitizeMetricName cafeName)"
    using sanitizeMetricName_nonempty [of cafeName] ne(4) by blast
  show ?thesis
    by (intro conjI) (rule ne ev m1 m2 m3 m4)+
qed

section \<open>Rules, removal and markers\<close>

lemma removeOriginalMetrics_length:
  "length (removeOriginalMetrics re config md rule) = length md"
  by (simp add: removeOriginalMetrics_def)

lemma removeOriginalMetrics_marked:
  "i < length md \<Longrightarrow>
   hasAggregatedMarkerAttributes (rm_attributes (md ! i)) (OutputResourceAttributes config) \<Longrightarrow>
   removeOriginalMetrics re config md rule ! i = md ! i"
  by (simp add: removeOriginalMetrics_def)

lemma removeOriginalMetrics_attributes:
  "i < length md \<Longrightarrow>
   rm_attributes (removeOriginalMetrics re config md rule ! i) = rm_attributes (md ! i)"
  by (simp add: removeOriginalMetrics_def)

lemma hasAggregatedMarkerAttributes_iff:
  "hasAggregatedMarkerAttributes attrs markers =
     (\<forall>(k, v) \<in> set markers. \<exists>a. Get attrs k = Some a \<and> AsString a = v)"
  by (induction markers) (auto split: option.splits if_splits)

lemma Get_PutStr: "Get (PutStr attrs k v) k' = (if k' = k then Some (ValueStr v) else Get attrs k')"
  by (simp add: Get_def PutStr_def update_conv')

lemma Get_foldl_PutStr:
  "Get (foldl (\<lambda>attrs (key, v). PutStr attrs key v) attrs ms) k =
     (case map_of (rev ms) k of Some v \<Rightarrow> Some (ValueStr v) | None \<Rightarrow> Get attrs k)"
proof (induction ms arbitrary: attrs)
  case Nil
  show ?case by simp
next
  case (Cons m ms)
  obtain k' v' where m: "m = (k', v')" by (cases m)
  show ?case
    by (simp add: m Cons.IH Get_PutStr map_add_def split: option.splits)
qed

lemma aggregatedResource_marked:
  assumes "distinct (map fst (OutputResourceAttributes config))"
  shows "hasAggregatedMarkerAttributes (rm_attributes (aggregatedResource config result))
           (OutputResourceAttributes config)"
proof -
  have "\<And>k v. (k, v) \<in> set (OutputResourceAttributes config) \<Longrightarrow>
          map_of (rev (OutputResourceAttributes config)) k = Some v"
    using assms by (simp add: distinct_rev rev_map [symmetric] del: rev_map)
  then show ?thesis
    by (auto simp: hasAggregatedMarkerAttributes_iff aggregatedResource_def Get_foldl_PutStr)
qed

lemma processAggregationRule_no_error:
  "snd (processAggregationRule re now config md rule) = None"
  by (simp add: processAggregationRule_def Let_def)

lemma processAggregationRule_cases:
  "\<exists>new. fst (processAggregationRule re now config md rule) = md @ new \<or>
         fst (processAggregationRule re now config md rule) =
           removeOriginalMetrics re config (md @ new) rule"
  by (auto simp: processAggregationRule_def Let_def intro: exI[of _ "[]"])

lemma processAggregationRule_marked:
  assumes "i < length md"
    and "hasAggregatedMarkerAttributes (rm_attributes (md ! i)) (OutputResourceAttributes config)"
  shows "fst (processAggregationRule re now config md rule) ! i = md ! i \<and>
         i < length (fst (processAggregationRule re now config md rule))"
proof -
  obtain new where "fst (processAggregationRule re now config md rule) = md @ new \<or>
         fst (processAggregationRule re now config md rule) =
           removeOriginalMetrics re config (md @ new) rule"
    using processAggregationRule_cases by blast
  then show ?thesis
  proof
    assume "fst (processAggregationRule re now config md rule) = md @ new"
    then show ?thesis using assms by (simp add: nth_append)
  next
    assume e: "fst (processAggregationRule re now config md rule) =
           removeOriginalMetrics re config (md @ new) rule"
    have "i < length (md @ new)" using assms by simp
    moreover have "hasAggregatedMarkerAttributes (rm_attributes ((md @ new) ! i)) (OutputResourceAttributes config)"
      using assms by (simp add: nth_append)
    ultimately have "removeOriginalMetrics re config (md @ new) rule ! i = (md @ new) ! i"
      by (rule removeOriginalMetrics_marked)
    then show ?thesis using assms e by (simp add: nth_append removeOriginalMetrics_length)
  qed
qed

lemma processRules_step:
  "processRules re now config (rule # rules) md =
     processRules re now config rules (fst (processAggregationRule re now config md rule))"
  by (cases "processAggregationRule re now config md rule") (simp split: option.splits)

lemma processRules_marked:
  "i < length md \<Longrightarrow>
   hasAggregatedMarkerAttributes (rm_attributes (md ! i)) (OutputResourceAttributes config) \<Longrightarrow>
   processRules re now config rules md ! i = md ! i"
proof (induction rules arbitrary: md)
  case Nil
  show ?case by simp
next
  case (Cons rule rules)
  let ?md1 = "fst (processAggregationRule re now config md rule)"
  have s: "?md1 ! i = md ! i \<and> i < length ?md1"
    using Cons.prems by (rule processAggregationRule_marked)
  then have "processRules re now config rules ?md1 ! i = ?md1 ! i"
    using Cons.prems by (intro Cons.IH) simp_all
  then show ?case using s by (simp add: processRules_step del: processRules.simps)
qed

lemma matchesPattern_invalid_regex:
  "MatchType rule = ''regex'' \<Longrightarrow> re (MetricPattern rule) = None \<Longrightarrow>
     \<not> matchesPattern re name rule"
  by (simp add: matchesPattern_def)

lemma collectMatchingMetrics_no_match:
  "(\<And>name. \<not> matchesPattern re name rule) \<Longrightarrow> collectMatchingMetrics re md rule = []"
  by (simp add: collectMatchingMetrics_def)

lemma processAggregationRule_no_match:
  "(\<And>name. \<not> matchesPattern re name rule) \<Longrightarrow>
     processAggregationRule re now config md rule = (md, None)"
  by (simp add: processAggregationRule_def collectMatchingMetrics_no_match)

lemma groupDataPointsByLabels_unsupported:
  "unsupportedShape metric \<Longrightarrow>
     groupDataPointsByLabels metric resourceAttrs groupByLabels groups = groups"
  by (simp add: unsupportedShape_def groupDataPointsByLabels_def split: MetricData.splits)

lemma groupMetricsByLabels_unsupported:
  "\<forall>m \<in> set metrics. unsupportedShape (mwr_Metric m) \<Longrightarrow>
     foldl (\<lambda>groups metricWithResource.
         groupDataPointsByLabels (mwr_Metric metricWithResource)
           (mwr_ResourceAttrs metricWithResource) groupByLabels groups) gs metrics = gs"
  by (induction metrics arbitrary: gs) (simp_all add: groupDataPointsByLabels_unsupported)

lemma processAggregationRule_unsupported:
  "\<forall>m \<in> set (collectMatchingMetrics re md rule). unsupportedShape (mwr_Metric m) \<Longrightarrow>
     processAggregationRule re now config md rule = (md, None)"
  by (simp add: processAggregationRule_def Let_def aggregateMetricsByResourceContext_def
      groupMetricsByLabels_def groupMetricsByLabels_unsupported)

lemmas model_defs =
  processMetrics_def processAggregationRule_def collectMatchingMetrics_def matchesPattern_def
  aggregateMetricsByResourceContext_def groupMetricsByLabels_def groupDataPointsByLabels_def
  buildGroupKeyFromPresentAttributes_def groupResult_def calculateAggregatedValue_def
  aggregateValues_def extractValuesFromMetric_def getLatestTimestamp_def pointTimestamps_def
  getEarliestTimestamp_def pointStartTimestamps_def setDataPointLabelsFromGroupKey_def
  extractResourceAttrsFromGroup_def aggregatedResource_def removeOriginalMetrics_def
  sanitizeMetricName_def validNameChar_def validFirstChar_def isLetter_def isDigit_def
  byteOf_def inRange_def Split2_def Get_def PutStr_def assign_def countMetrics_def Let_def
  float_simps

lemmas example_defs =
  preserveTestConfig_def preserveTestRule_def preserveTestBatch_def pathKeyConfig_def
  pathKeyRule_def pathKeyBatch_def resourceOf_def gaugeMetric_def synthesizedGauge_def
  laterRule_def invalidRegexRule_def exampleRegexp_def summaryBatch_def


text \<open>
  C4. For the batch of two matching gauges, the rule that does not preserve the
  originals leaves one metric in the batch, the synthesized one, and the rule that
  preserves them leaves three. Removal leaves every resource that carries all marker
  attributes with their configured values as it is, under one rule and under any list of
  rules; and a synthesized resource carries them all (the keys of the configured map
  being distinct, as the keys of a map are).
\<close>

theorem removeOriginalMetrics_semantics:
  "countMetrics (fst (processMetrics re now (preserveTestConfig False) preserveTestBatch)) = 1 \<and>
   map (\<lambda>rm. map (\<lambda>sm. map m_name (sm_metrics sm)) (rm_scope_metrics rm))
     (fst (processMetrics re now (preserveTestConfig False) preserveTestBatch)) =
     [[[]], [[]], [[''aggregated_metric'']]] \<and>
   countMetrics (fst (processMetrics re now (preserveTestConfig True) preserveTestBatch)) = 3 \<and>
   (i < length md \<and>
    hasAggregatedMarkerAttributes (rm_attributes (md ! i)) (OutputResourceAttributes config) \<longrightarrow>
      removeOriginalMetrics re config md rule ! i = md ! i \<and>
      processRules re now config rules md ! i = md ! i) \<and>
   (distinct (map fst (OutputResourceAttributes config)) \<longrightarrow>
      hasAggregatedMarkerAttributes (rm_attributes (aggregatedResource config result))
        (OutputResourceAttributes config))"
proof -
  have concrete:
    "countMetrics (fst (processMetrics re now (preserveTestConfig False) preserveTestBatch)) = 1"
    "map (\<lambda>rm. map (\<lambda>sm. map m_name (sm_metrics sm)) (rm_scope_metrics rm))
       (fst (processMetrics re now (preserveTestConfig False) preserveTestBatch)) =
       [[[]], [[]], [[''aggregated_metric'']]]"
    "countMetrics (fst (processMetrics re now (preserveTestConfig True) preserveTestBatch)) = 3"
    by (simp_all add: model_defs example_defs)
  show ?thesis
    using concrete removeOriginalMetrics_marked processRules_marked aggregatedResource_marked
    by simp
qed

theorem removeOriginalMetrics_semantics_witness:
  "2 < length (fst (processMetrics exampleRegexp 7 (preserveTestConfig False) preserveTestBatch)) \<and>
   hasAggregatedMarkerAttributes
     (rm_attributes
        (fst (processMetrics exampleRegexp 7 (preserveTestConfig False) preserveTestBatch) ! 2))
     (OutputResourceAttributes (preserveTestConfig False)) \<and>
   removeOriginalMetrics exampleRegexp (preserveTestConfig False)
     (fst (processMetrics exampleRegexp 7 (preserveTestConfig False) preserveTestBatch))
     laterRule ! 2 =
     fst (processMetrics exampleRegexp 7 (preserveTestConfig False) preserveTestBatch) ! 2 \<and>
   processRules exampleRegexp 7 (preserveTestConfig False) [laterRule]
     (fst (processMetrics exampleRegexp 7 (preserveTestConfig False) preserveTestBatch)) ! 2 =
     fst (processMetrics exampleRegexp 7 (preserveTestConfig False) preserveTestBatch) ! 2 \<and>
   map m_name (concat (map sm_metrics (rm_scope_metrics
     (fst (processMetrics exampleRegexp 7 (preserveTestConfig False) preserveTestBatch) ! 2)))) =
     [''aggregated_metric''] \<and>
   distinct (map fst (OutputResourceAttributes (preserveTestConfig False)))"
proof -
  have pre:
    "2 < length (fst (processMetrics exampleRegexp 7 (preserveTestConfig False) preserveTestBatch))"
    "hasAggregatedMarkerAttributes
       (rm_attributes
          (fst (processMetrics exampleRegexp 7 (preserveTestConfig False) preserveTestBatch) ! 2))
       (OutputResourceAttributes (preserveTestConfig False))"
    "map m_name (concat (map sm_metrics (rm_scope_metrics
       (fst (processMetrics exampleRegexp 7 (preserveTestConfig False) preserveTestBatch) ! 2)))) =
       [''aggregated_metric'']"
    "distinct (map fst (OutputResourceAttributes (preserveTestConfig False)))"
    by (simp_all add: model_defs example_defs)
  show ?thesis
    using pre removeOriginalMetrics_semantics
      [of exampleRegexp 7 2
        "fst (processMetrics exampleRegexp 7 (preserveTestConfig False) preserveTestBatch)"
        "preserveTestConfig False" laterRule "[laterRule]"]
    by simp
qed

text \<open>
  C5. Processing a batch returns no error, for every batch and every list of rules, and
  neither does one rule. A rule of match type \<open>regex\<close> whose pattern does not compile
  matches no metric name; it leaves the batch as it is, and the rules after it are
  processed as if it were not there. In the model the returned batch is the state of the
  one batch after the rules; the identity of the object is not a notion of the model.
\<close>

theorem processMetrics_failure_isolation:
  "snd (processMetrics re now config md) = None \<and>
   snd (processAggregationRule re now config md rule) = None \<and>
   (MatchType rule = ''regex'' \<and> re (MetricPattern rule) = None \<longrightarrow>
      \<not> matchesPattern re name rule \<and>
      processAggregationRule re now config md rule = (md, None) \<and>
      processRules re now config (rule # rules) md = processRules re now config rules md)"
proof -
  have "processAggregationRule re now config md rule = (md, None)"
    if "MatchType rule = ''regex''" "re (MetricPattern rule) = None"
    using that by (intro processAggregationRule_no_match matchesPattern_invalid_regex)
  then show ?thesis
    by (simp add: processMetrics_def processAggregationRule_no_error
        matchesPattern_invalid_regex processRules_step del: processRules.simps)
qed

theorem processMetrics_failure_isolation_witness:
  "MatchType invalidRegexRule = ''regex'' \<and>
   exampleRegexp (MetricPattern invalidRegexRule) = None \<and>
   \<not> matchesPattern exampleRegexp ''test_metric'' invalidRegexRule \<and>
   processAggregationRule exampleRegexp 7 (preserveTestConfig False) preserveTestBatch
     invalidRegexRule = (preserveTestBatch, None) \<and>
   countMetrics (processRules exampleRegexp 7 (preserveTestConfig False)
     [invalidRegexRule, preserveTestRule False] preserveTestBatch) = 1"
proof -
  have pre: "MatchType invalidRegexRule = ''regex''"
    "exampleRegexp (MetricPattern invalidRegexRule) = None"
    by (simp_all add: example_defs)
  have "countMetrics (processRules exampleRegexp 7 (preserveTestConfig False)
     [preserveTestRule False] preserveTestBatch) = 1"
    by (simp add: model_defs example_defs)
  then show ?thesis
    using pre processMetrics_failure_isolation
      [of exampleRegexp 7 "preserveTestConfig False" preserveTestBatch invalidRegexRule
        "''test_metric''" "[preserveTestRule False]"]
    by simp
qed

text \<open>
  C10. A metric that is neither a gauge, a sum nor a histogram adds no record to any
  group. When every metric that matches a rule is of such a shape, the rule returns the
  batch as it was: no resource is appended and no metric is removed, also when the rule
  does not preserve the originals.
\<close>

theorem processAggregationRule_unsupported_shapes:
  "(unsupportedShape metric \<longrightarrow>
      groupDataPointsByLabels metric resourceAttrs groupByLabels groups = groups) \<and>
   ((\<forall>m \<in> set (collectMatchingMetrics re md rule). unsupportedShape (mwr_Metric m)) \<longrightarrow>
      processAggregationRule re now config md rule = (md, None))"
  using groupDataPointsByLabels_unsupported processAggregationRule_unsupported by blast

theorem processAggregationRule_unsupported_shapes_witness:
  "unsupportedShape (mwr_Metric (hd (collectMatchingMetrics exampleRegexp summaryBatch
     (preserveTestRule False)))) \<and>
   length (collectMatchingMetrics exampleRegexp summaryBatch (preserveTestRule False)) = 1 \<and>
   \<not> PreserveOriginalMetrics (preserveTestRule False) \<and>
   processAggregationRule exampleRegexp 7 (preserveTestConfig False) summaryBatch
     (preserveTestRule False) = (summaryBatch, None)"
proof -
  have pre:
    "unsupportedShape (mwr_Metric (hd (collectMatchingMetrics exampleRegexp summaryBatch
       (preserveTestRule False))))"
    "length (collectMatchingMetrics exampleRegexp summaryBatch (preserveTestRule False)) = 1"
    "\<forall>m \<in> set (collectMatchingMetrics exampleRegexp summaryBatch (preserveTestRule False)).
       unsupportedShape (mwr_Metric m)"
    "\<not> PreserveOriginalMetrics (preserveTestRule False)"
    by (simp_all add: collectMatchingMetrics_def matchesPattern_def unsupportedShape_def
        example_defs)
  show ?thesis
    using pre processAggregationRule_unsupported_shapes
      [of "mwr_Metric (hd (collectMatchingMetrics exampleRegexp summaryBatch
             (preserveTestRule False)))" "[]" "[]" "[]"
          exampleRegexp summaryBatch "preserveTestRule False" 7 "preserveTestConfig False"]
    by simp
qed

section \<open>Cleanup by labels\<close>

lemma matchesFilters_iff:
  "matchesFilters filters entry = (\<forall>(k, v) \<in> set filters. resolvedLabel entry k = Some v)"
  by (induction filters) auto

lemma CleanByLabels_loop:
  "distinct (map fst (done @ todo)) \<Longrightarrow>
   foldl (\<lambda>(store, deleted) (identity, entry).
         if matchesFilters filters entry then (AList.delete identity store, deleted + 1)
         else (store, deleted))
       (filter (\<lambda>(k, e). \<not> matchesFilters filters e) done @ todo, n) todo =
   (filter (\<lambda>(k, e). \<not> matchesFilters filters e) (done @ todo),
    n + length (filter (\<lambda>(k, e). matchesFilters filters e) todo))"
proof (induction todo arbitrary: "done" n)
  case Nil
  show ?case by simp
next
  case (Cons x todo)
  obtain k e where x: "x = (k, e)" by (cases x)
  let ?keep = "filter (\<lambda>(k, e). \<not> matchesFilters filters e)"
  have d: "distinct (map fst ((done @ [x]) @ todo))" using Cons.prems by simp
  have notin: "k \<notin> fst ` set done" "k \<notin> fst ` set todo"
    using Cons.prems x by auto
  have del: "AList.delete k (?keep done @ (k, e) # todo) = ?keep done @ todo"
  proof -
    have a: "AList.delete k (?keep done) = ?keep done"
      by (rule AList.delete_id) (use notin in auto)
    have b: "AList.delete k todo = todo"
      by (rule AList.delete_id) (use notin in auto)
    have "AList.delete k (?keep done @ (k, e) # todo) =
            AList.delete k (?keep done) @ AList.delete k todo"
      by (simp add: AList.delete_eq)
    then show ?thesis
      by (simp only: a b)
  qed
  show ?case
  proof (cases "matchesFilters filters e")
    case True
    have "?keep (done @ [x]) = ?keep done" using True x by simp
    then show ?thesis
      using Cons.IH [OF d, of "Suc n"] True x del by simp
  next
    case False
    have "?keep (done @ [x]) @ todo = ?keep done @ x # todo" using False x by simp
    then show ?thesis
      using Cons.IH [OF d, of n] False x by simp
  qed
qed

text \<open>
  C9. On a store with one entry for each identity, \<open>CleanByLabels\<close> leaves exactly the
  entries that do not match the filter, in their order and unchanged, and returns the
  number of the entries that match, which is the number of entries it removed. An entry
  matches when every key of the filter resolves, in the union of the entry's resource and
  point attributes, to the value the filter gives.
\<close>

theorem CleanByLabels_spec:
  "distinct (map fst acc) \<Longrightarrow>
     fst (CleanByLabels filters acc) = filter (\<lambda>(k, e). \<not> matchesFilters filters e) acc \<and>
     snd (CleanByLabels filters acc) = length (filter (\<lambda>(k, e). matchesFilters filters e) acc) \<and>
     snd (CleanByLabels filters acc) = length acc - length (fst (CleanByLabels filters acc)) \<and>
     (matchesFilters filters entry \<longleftrightarrow>
        (\<forall>(k, v) \<in> set filters. resolvedLabel entry k = Some v))"
proof -
  assume d: "distinct (map fst acc)"
  have e: "CleanByLabels filters acc =
    (filter (\<lambda>(k, e). \<not> matchesFilters filters e) acc,
     length (filter (\<lambda>(k, e). matchesFilters filters e) acc))"
    using CleanByLabels_loop [of "[]" acc filters 0] d by (simp add: CleanByLabels_def)
  have "length (filter (\<lambda>(k, e). matchesFilters filters e) acc) +
        length (filter (\<lambda>(k, e). \<not> matchesFilters filters e) acc) = length acc"
    using sum_length_filter_compl [of "\<lambda>(k, e). matchesFilters filters e" acc]
    by (simp add: case_prod_unfold)
  then show ?thesis
    using e matchesFilters_iff [of filters entry] by simp
qed

theorem CleanByLabels_spec_witness:
  "distinct (map fst cleanupStore) \<and>
   CleanByLabels [(''deployment.environment'', ''staging'')] cleanupStore =
     ([cleanupEntry ''metric2'' ''service-b'' ''production'' ''POST''], 2) \<and>
   length [(''deployment.environment'', ''staging'')] = Suc 0 \<and>
   CleanByLabels [(''deployment.environment'', ''staging''), (''method'', ''PUT'')] cleanupStore =
     ([cleanupEntry ''metric1'' ''service-a'' ''staging'' ''GET'',
       cleanupEntry ''metric2'' ''service-b'' ''production'' ''POST''], 1)"
proof -
  have d: "distinct (map fst cleanupStore)"
    by (simp add: cleanupStore_def cleanupEntry_def)
  have m: "filter (\<lambda>(k, e). \<not> matchesFilters [(''deployment.environment'', ''staging'')] e)
             cleanupStore = [cleanupEntry ''metric2'' ''service-b'' ''production'' ''POST'']"
    "length (filter (\<lambda>(k, e). matchesFilters [(''deployment.environment'', ''staging'')] e)
             cleanupStore) = 2"
    "filter (\<lambda>(k, e). \<not> matchesFilters
               [(''deployment.environment'', ''staging''), (''method'', ''PUT'')] e)
       cleanupStore =
       [cleanupEntry ''metric1'' ''service-a'' ''staging'' ''GET'',
        cleanupEntry ''metric2'' ''service-b'' ''production'' ''POST'']"
    "length (filter (\<lambda>(k, e). matchesFilters
               [(''deployment.environment'', ''staging''), (''method'', ''PUT'')] e)
       cleanupStore) = 1"
    by (simp_all add: cleanupStore_def cleanupEntry_def resolvedLabel_def Get_def)
  show ?thesis
    using d m
      CleanByLabels_spec [OF d, of "[(''deployment.environment'', ''staging'')]"]
      CleanByLabels_spec
        [OF d, of "[(''deployment.environment'', ''staging''), (''method'', ''PUT'')]"]
    by (simp add: prod_eq_iff)
qed

section \<open>Reading the group key back\<close>

lemma presentPairs_groupPairs:
  "presentPairs r p labels = map (\<lambda>(l, v). l @ ''='' @ v) (groupPairs r p labels)"
  by (induction labels)
     (simp_all add: presentPairs_def groupPairs_def List.map_filter_simps split: option.splits)

lemma groupPairs_lookup:
  "(l, v) \<in> set (groupPairs r p labels) \<Longrightarrow> \<exists>val. lookupLabel r p l = Some val \<and> v = AsString val"
  by (auto simp: groupPairs_def List.map_filter_def)

lemma Split_not_Nil: "Split c s \<noteq> []"
  by (induction s) (simp_all split: list.splits)

lemma Split_no_sep: "c \<notin> set s \<Longrightarrow> Split c s = [s]"
  by (induction s) auto

lemma Split_append: "c \<notin> set s \<Longrightarrow> Split c (s @ c # t) = s # Split c t"
  by (induction s) auto

lemma Split_Join:
  "parts \<noteq> [] \<Longrightarrow> \<forall>part \<in> set parts. c \<notin> set part \<Longrightarrow> Split c (Join parts [c]) = parts"
proof (induction parts "[c]" rule: Join.induct)
  case 1
  then show ?case by simp
next
  case (2 x)
  then show ?case by (simp add: Split_no_sep)
next
  case (3 x y ys)
  then show ?case by (simp add: Split_append)
qed

lemma takeWhile_sep: "c \<notin> set l \<Longrightarrow> takeWhile (\<lambda>x. x \<noteq> c) (l @ c # v) = l"
  by (induction l) auto

lemma dropWhile_sep: "c \<notin> set l \<Longrightarrow> dropWhile (\<lambda>x. x \<noteq> c) (l @ c # v) = c # v"
  by (induction l) auto

lemma Split2_pair: "c \<notin> set l \<Longrightarrow> Split2 c (l @ c # v) = [l, v]"
  by (simp add: Split2_def takeWhile_sep dropWhile_sep)

lemma foldl_update_map_of:
  "map_of (foldl (\<lambda>m (l, v). if P l then AList.update l (g v) m else m) acc ps) k =
     (if P k then (case map_of (rev ps) k of Some v \<Rightarrow> Some (g v) | None \<Rightarrow> map_of acc k)
      else map_of acc k)"
proof (induction ps arbitrary: acc)
  case Nil
  show ?case by simp
next
  case (Cons x ps)
  obtain l v where x: "x = (l, v)" by (cases x)
  show ?case
    by (simp add: x Cons.IH update_conv' map_add_def split: option.splits)
qed

lemma map_of_rev_functional:
  "(k, v) \<in> set ps \<Longrightarrow> \<forall>v'. (k, v') \<in> set ps \<longrightarrow> v' = v \<Longrightarrow> map_of (rev ps) k = Some v"
proof -
  assume a: "(k, v) \<in> set ps" and f: "\<forall>v'. (k, v') \<in> set ps \<longrightarrow> v' = v"
  have "k \<in> fst ` set (rev ps)" using a by force
  then obtain w where w: "map_of (rev ps) k = Some w"
    by (meson domD domI map_of_eq_None_iff option.exhaust)
  then have "(k, w) \<in> set ps" using map_of_SomeD by fastforce
  then show ?thesis using f w by simp
qed

lemma foldl_map_step:
  "(\<And>a x. x \<in> set xs \<Longrightarrow> F a (h x) = G a x) \<Longrightarrow> foldl F acc (map h xs) = foldl G acc xs"
  by (induction xs arbitrary: acc) simp_all

lemma foldl_parts_resource:
  "\<forall>(l, v) \<in> set ps. CHR ''='' \<notin> set l \<Longrightarrow>
   foldl (\<lambda>resourceAttrs part.
            (case Split2 CHR ''='' part of
               [labelName, labelValue] \<Rightarrow>
                 (case Get first labelName of
                    Some v \<Rightarrow> assign resourceAttrs labelName labelValue
                  | None \<Rightarrow> resourceAttrs)
             | _ \<Rightarrow> resourceAttrs))
      acc (map (\<lambda>(l, v). l @ ''='' @ v) ps) =
   foldl (\<lambda>m (l, v). if Get first l \<noteq> None then AList.update l (id v) m else m) acc ps"
proof (rule foldl_map_step)
  fix a :: StrMap and x :: "string \<times> string"
  assume all: "\<forall>(l, v) \<in> set ps. CHR ''='' \<notin> set l" and x: "x \<in> set ps"
  obtain l v where lv: "x = (l, v)" by (cases x)
  have "Split2 CHR ''='' (l @ CHR ''='' # v) = [l, v]"
    using all x lv by (intro Split2_pair) auto
  then show "(case Split2 CHR ''='' (case x of (l, v) \<Rightarrow> l @ ''='' @ v) of
               [labelName, labelValue] \<Rightarrow>
                 (case Get first labelName of
                    Some v \<Rightarrow> assign a labelName labelValue
                  | None \<Rightarrow> a)
             | _ \<Rightarrow> a) =
            (case x of (l, v) \<Rightarrow> if Get first l \<noteq> None then AList.update l (id v) a else a)"
    by (simp add: lv assign_def split: option.splits)
qed

lemma foldl_parts_point:
  "\<forall>(l, v) \<in> set ps. CHR ''='' \<notin> set l \<Longrightarrow>
   foldl (\<lambda>attrs part.
            (case Split2 CHR ''='' part of
               [labelKey, labelValue] \<Rightarrow>
                 (case Get first labelKey of
                    Some v \<Rightarrow> attrs
                  | None \<Rightarrow> PutStr attrs labelKey labelValue)
             | _ \<Rightarrow> attrs))
      acc (map (\<lambda>(l, v). l @ ''='' @ v) ps) =
   foldl (\<lambda>m (l, v). if Get first l = None then AList.update l (ValueStr v) m else m) acc ps"
proof (rule foldl_map_step)
  fix a :: Map and x :: "string \<times> string"
  assume all: "\<forall>(l, v) \<in> set ps. CHR ''='' \<notin> set l" and x: "x \<in> set ps"
  obtain l v where lv: "x = (l, v)" by (cases x)
  have "Split2 CHR ''='' (l @ CHR ''='' # v) = [l, v]"
    using all x lv by (intro Split2_pair) auto
  then show "(case Split2 CHR ''='' (case x of (l, v) \<Rightarrow> l @ ''='' @ v) of
               [labelKey, labelValue] \<Rightarrow>
                 (case Get first labelKey of
                    Some v \<Rightarrow> a
                  | None \<Rightarrow> PutStr a labelKey labelValue)
             | _ \<Rightarrow> a) =
            (case x of (l, v) \<Rightarrow> if Get first l = None then AList.update l (ValueStr v) a else a)"
    by (simp add: lv PutStr_def split: option.splits)
qed

lemma Join_contains_eq:
  "ps \<noteq> [] \<Longrightarrow> CHR ''='' \<in> set (Join (map (\<lambda>(l, v). l @ ''='' @ v) ps) ''|'')"
proof -
  assume "ps \<noteq> []"
  then obtain l v qs where ps: "ps = (l, v) # qs" by (cases ps) auto
  show ?thesis by (cases qs) (simp_all add: ps)
qed

lemma key_of_pairs:
  assumes "groupPairs r p labels \<noteq> []"
  shows "buildGroupKeyFromPresentAttributes r p labels =
           Join (map (\<lambda>(l, v). l @ ''='' @ v) (groupPairs r p labels)) ''|''"
    and "buildGroupKeyFromPresentAttributes r p labels \<noteq> ''all''"
    and "labels \<noteq> []"
proof -
  show l: "labels \<noteq> []" using assms by (auto simp: groupPairs_def List.map_filter_simps)
  show k: "buildGroupKeyFromPresentAttributes r p labels =
           Join (map (\<lambda>(l, v). l @ ''='' @ v) (groupPairs r p labels)) ''|''"
    using assms l
    by (simp add: buildGroupKeyFromPresentAttributes_def keyPartsLoop_presentPairs
        presentPairs_groupPairs)
  have "CHR ''='' \<in> set (buildGroupKeyFromPresentAttributes r p labels)"
    using Join_contains_eq [OF assms] k by simp
  then show "buildGroupKeyFromPresentAttributes r p labels \<noteq> ''all''" by auto
qed

lemma Split_key:
  assumes "groupPairs r p labels \<noteq> []"
    and "\<forall>(l, v) \<in> set (groupPairs r p labels). CHR ''|'' \<notin> set l \<and> CHR ''|'' \<notin> set v"
  shows "Split CHR ''|'' (buildGroupKeyFromPresentAttributes r p labels) =
           map (\<lambda>(l, v). l @ ''='' @ v) (groupPairs r p labels)"
proof -
  have "\<forall>part \<in> set (map (\<lambda>(l, v). l @ ''='' @ v) (groupPairs r p labels)). CHR ''|'' \<notin> set part"
    using assms(2) by auto
  moreover have "map (\<lambda>(l, v). l @ ''='' @ v) (groupPairs r p labels) \<noteq> []"
    using assms(1) by simp
  ultimately show ?thesis
    using Split_Join [of "map (\<lambda>(l, v). l @ ''='' @ v) (groupPairs r p labels)" "CHR ''|''"]
    by (simp add: key_of_pairs(1) [OF assms(1)])
qed

text \<open>
  Where no label name of the key holds an equals sign or a bar and no value holds a bar,
  a pair of the key is placed on one side: as a resource attribute when the first record
  of the group has the label among its resource attributes, as a point attribute when it
  has not, with the value of the key.
\<close>

theorem group_key_placement:
  assumes "metrics \<noteq> []"
    and "(l, v) \<in> set (groupPairs r p labels)"
    and "\<forall>(l', v') \<in> set (groupPairs r p labels).
           CHR ''='' \<notin> set l' \<and> CHR ''|'' \<notin> set l' \<and> CHR ''|'' \<notin> set v'"
  shows "(Get (mwr_ResourceAttrs (hd metrics)) l \<noteq> None \<longrightarrow>
            map_of (extractResourceAttrsFromGroup
              (buildGroupKeyFromPresentAttributes r p labels) labels metrics) l = Some v \<and>
            Get (setDataPointLabelsFromGroupKey []
              (buildGroupKeyFromPresentAttributes r p labels) labels metrics) l = None) \<and>
         (Get (mwr_ResourceAttrs (hd metrics)) l = None \<longrightarrow>
            Get (setDataPointLabelsFromGroupKey []
              (buildGroupKeyFromPresentAttributes r p labels) labels metrics) l =
              Some (ValueStr v) \<and>
            map_of (extractResourceAttrsFromGroup
              (buildGroupKeyFromPresentAttributes r p labels) labels metrics) l = None)"
proof -
  let ?ps = "groupPairs r p labels"
  let ?key = "buildGroupKeyFromPresentAttributes r p labels"
  let ?first = "mwr_ResourceAttrs (hd metrics)"
  have ne: "?ps \<noteq> []" using assms(2) by auto
  have bar: "\<forall>(l, v) \<in> set ?ps. CHR ''|'' \<notin> set l \<and> CHR ''|'' \<notin> set v"
    using assms(3) by auto
  have eq: "\<forall>(l, v) \<in> set ?ps. CHR ''='' \<notin> set l"
    using assms(3) by auto
  have split: "Split CHR ''|'' ?key = map (\<lambda>(l, v). l @ ''='' @ v) ?ps"
    using ne bar by (rule Split_key)
  have guard: "\<not> (?key = ''all'' \<or> labels = [] \<or> metrics = [])"
    using key_of_pairs(2,3) [OF ne] assms(1) by simp
  let ?F = "\<lambda>resourceAttrs part.
            (case Split2 CHR ''='' part of
               [labelName, labelValue] \<Rightarrow>
                 (case Get ?first labelName of
                    Some v \<Rightarrow> assign resourceAttrs labelName labelValue
                  | None \<Rightarrow> resourceAttrs)
             | _ \<Rightarrow> resourceAttrs)"
  let ?H = "\<lambda>attrs part.
            (case Split2 CHR ''='' part of
               [labelKey, labelValue] \<Rightarrow>
                 (case Get ?first labelKey of
                    Some v \<Rightarrow> attrs
                  | None \<Rightarrow> PutStr attrs labelKey labelValue)
             | _ \<Rightarrow> attrs)"
  have "extractResourceAttrsFromGroup ?key labels metrics = foldl ?F [] (Split CHR ''|'' ?key)"
    using guard by (simp add: extractResourceAttrsFromGroup_def)
  also have "\<dots> = foldl ?F [] (map (\<lambda>(l, v). l @ ''='' @ v) ?ps)"
    by (simp only: split)
  also have "\<dots> =
      foldl (\<lambda>m (l, v). if Get ?first l \<noteq> None then AList.update l (id v) m else m) [] ?ps"
    by (rule foldl_parts_resource [OF eq])
  finally have res: "extractResourceAttrsFromGroup ?key labels metrics =
      foldl (\<lambda>m (l, v). if Get ?first l \<noteq> None then AList.update l (id v) m else m) [] ?ps" .
  have "setDataPointLabelsFromGroupKey [] ?key labels metrics = foldl ?H [] (Split CHR ''|'' ?key)"
    using guard by (simp add: setDataPointLabelsFromGroupKey_def)
  also have "\<dots> = foldl ?H [] (map (\<lambda>(l, v). l @ ''='' @ v) ?ps)"
    by (simp only: split)
  also have "\<dots> =
      foldl (\<lambda>m (l, v). if Get ?first l = None then AList.update l (ValueStr v) m else m) [] ?ps"
    by (rule foldl_parts_point [OF eq])
  finally have pt: "setDataPointLabelsFromGroupKey [] ?key labels metrics =
      foldl (\<lambda>m (l, v). if Get ?first l = None then AList.update l (ValueStr v) m else m) [] ?ps" .
  have "\<forall>v'. (l, v') \<in> set ?ps \<longrightarrow> v' = v"
    using groupPairs_lookup [OF assms(2)] groupPairs_lookup [of l _ r p labels] by fastforce
  then have last: "map_of (rev ?ps) l = Some v"
    using assms(2) by (intro map_of_rev_functional)
  have r1: "map_of (extractResourceAttrsFromGroup ?key labels metrics) l =
      (if Get ?first l \<noteq> None
       then (case map_of (rev ?ps) l of Some v \<Rightarrow> Some (id v) | None \<Rightarrow> map_of [] l)
       else map_of [] l)"
    unfolding res
    by (rule foldl_update_map_of [where P = "\<lambda>l. Get ?first l \<noteq> None" and g = id])
  have r2: "map_of (setDataPointLabelsFromGroupKey [] ?key labels metrics) l =
      (if Get ?first l = None
       then (case map_of (rev ?ps) l of Some v \<Rightarrow> Some (ValueStr v) | None \<Rightarrow> map_of [] l)
       else map_of [] l)"
    unfolding pt
    by (rule foldl_update_map_of [where P = "\<lambda>l. Get ?first l = None" and g = ValueStr])
  have r2': "Get (setDataPointLabelsFromGroupKey [] ?key labels metrics) l =
      map_of (setDataPointLabelsFromGroupKey [] ?key labels metrics) l"
    by (simp add: Get_def)
  show ?thesis
    unfolding r1 r2' r2 last by simp
qed

theorem group_key_placement_example:
  "groupPairs exampleResourceAttrs examplePointAttrs [''cluster'', ''service'', ''missing_label''] =
     [(''cluster'', ''prod''), (''service'', ''web'')] \<and>
   buildGroupKeyFromPresentAttributes exampleResourceAttrs examplePointAttrs
     [''cluster'', ''service'', ''missing_label''] = ''cluster=prod|service=web'' \<and>
   map_of (extractResourceAttrsFromGroup ''cluster=prod|service=web''
     [''cluster'', ''service'', ''missing_label''] [exampleRecord]) ''cluster'' = Some ''prod'' \<and>
   Get (setDataPointLabelsFromGroupKey [] ''cluster=prod|service=web''
     [''cluster'', ''service'', ''missing_label''] [exampleRecord]) ''cluster'' = None \<and>
   Get (setDataPointLabelsFromGroupKey [] ''cluster=prod|service=web''
     [''cluster'', ''service'', ''missing_label''] [exampleRecord]) ''service'' =
     Some (ValueStr ''web'') \<and>
   map_of (extractResourceAttrsFromGroup ''cluster=prod|service=web''
     [''cluster'', ''service'', ''missing_label''] [exampleRecord]) ''service'' = None"
proof -
  have pairs:
    "groupPairs exampleResourceAttrs examplePointAttrs
       [''cluster'', ''service'', ''missing_label''] = [(''cluster'', ''prod''), (''service'', ''web'')]"
    by (simp add: groupPairs_def lookupLabel_def Get_def List.map_filter_simps
        exampleResourceAttrs_def examplePointAttrs_def)
  have key:
    "buildGroupKeyFromPresentAttributes exampleResourceAttrs examplePointAttrs
       [''cluster'', ''service'', ''missing_label''] = ''cluster=prod|service=web''"
    by (simp add: buildGroupKeyFromPresentAttributes_def Get_def exampleResourceAttrs_def
        examplePointAttrs_def)
  have first:
    "Get (mwr_ResourceAttrs (hd [exampleRecord])) ''cluster'' \<noteq> None"
    "Get (mwr_ResourceAttrs (hd [exampleRecord])) ''service'' = None"
    by (simp_all add: exampleRecord_def exampleResourceAttrs_def Get_def)
  have seps:
    "\<forall>(l', v') \<in> set (groupPairs exampleResourceAttrs examplePointAttrs
        [''cluster'', ''service'', ''missing_label'']).
       CHR ''='' \<notin> set l' \<and> CHR ''|'' \<notin> set l' \<and> CHR ''|'' \<notin> set v'"
    by (simp add: pairs)
  have a: "(''cluster'', ''prod'') \<in> set (groupPairs exampleResourceAttrs examplePointAttrs
        [''cluster'', ''service'', ''missing_label''])"
    and b: "(''service'', ''web'') \<in> set (groupPairs exampleResourceAttrs examplePointAttrs
        [''cluster'', ''service'', ''missing_label''])"
    by (simp_all add: pairs)
  have ne: "[exampleRecord] \<noteq> []"
    by simp
  show ?thesis
    using group_key_placement [OF ne a seps] group_key_placement [OF ne b seps] first pairs
    by (simp add: key)
qed

text \<open>
  C8. The claim fails for a value that holds a bar. With the label \<open>a\<close> of value
  \<open>x|y\<close> the group key is \<open>a=x|y\<close>; read back, it gives the point attribute, and
  likewise the resource attribute, \<open>a\<close> the value \<open>x\<close>, and the data point that the
  engine synthesizes carries \<open>a\<close> with the value \<open>x\<close>.
\<close>

theorem group_key_value_with_bar:
  "buildGroupKeyFromPresentAttributes [] [(''a'', ValueStr ''x|y'')] [''a''] = ''a=x|y'' \<and>
   groupPairs [] [(''a'', ValueStr ''x|y'')] [''a''] = [(''a'', ''x|y'')] \<and>
   setDataPointLabelsFromGroupKey [] ''a=x|y'' [''a''] [barRecord] = [(''a'', ValueStr ''x'')] \<and>
   buildGroupKeyFromPresentAttributes [(''a'', ValueStr ''x|y'')] [] [''a''] = ''a=x|y'' \<and>
   extractResourceAttrsFromGroup ''a=x|y'' [''a''] [barResourceRecord] = [(''a'', ''x'')] \<and>
   map (\<lambda>rm. map (\<lambda>sm. map m_data (sm_metrics sm)) (rm_scope_metrics rm))
     (drop 1 (fst (processMetrics re now barConfig barBatch))) =
     [[[MetricGauge
          [\<lparr>dp_attributes = [(''a'', ValueStr ''x'')], dp_start_timestamp = 0,
            dp_timestamp = now, dp_value = NumberDouble (Finite 1)\<rparr>]]]]"
  by (simp add: model_defs example_defs barRecord_def barResourceRecord_def barConfig_def
      barBatch_def groupPairs_def lookupLabel_def List.map_filter_simps)

end
